theory Spec2Isabelle
  imports Complex_Main "HOL-Library.Sublist" "HOL-Library.AList" "HOL-Library.Multiset"
begin

section \<open>Strings and characters\<close>

text \<open>
  A Python \<open>str\<close> is modelled as a \<open>string\<close> whose characters are the code points
  U+0000 to U+00FF (\<open>of_char c\<close> is the code point): ASCII and the Latin-1 supplement,
  which holds every accented letter of the catalogues and of the tables in
  \<^verbatim>\<open>text_processor.py\<close>. The tables of \<^verbatim>\<open>str.lower\<close>, \<^verbatim>\<open>unicodedata\<close> and \<^verbatim>\<open>re\<close> are
  written out for that range. Intermediate results that leave the range (the combining
  marks produced by the canonical decomposition, the results of \<^verbatim>\<open>str.upper\<close>) are lists
  of code points.
\<close>

type_synonym codepoint = int

definition cp :: "char \<Rightarrow> codepoint" where
  "cp c = of_char c"

definition lower_cp :: "codepoint \<Rightarrow> codepoint" where
  "lower_cp n =
     (if (0x41 \<le> n \<and> n \<le> 0x5A) \<or> (0xC0 \<le> n \<and> n \<le> 0xDE \<and> n \<noteq> 0xD7)
      then n + 32 else n)"

definition lower_char :: "char \<Rightarrow> char" where
  "lower_char c = char_of (lower_cp (cp c))"

text \<open>\<^verbatim>\<open>str.lower()\<close>: inside the range it works character by character.\<close>

definition py_lower :: "string \<Rightarrow> string" where
  "py_lower s = map lower_char s"

text \<open>
  The canonical decompositions (\<^verbatim>\<open>unicodedata.normalize('NFD', _)\<close>) of the range: a base
  letter and one combining mark. Every other character of the range decomposes to
  itself. No character of the range is a combining mark, so the canonical reordering of
  marks never applies to a decomposed string of the range.
\<close>

definition nfd_table :: "(codepoint \<times> codepoint list) list" where
  "nfd_table =
     [(0xC0, [0x41, 0x300]), (0xC1, [0x41, 0x301]), (0xC2, [0x41, 0x302]),
      (0xC3, [0x41, 0x303]), (0xC4, [0x41, 0x308]), (0xC5, [0x41, 0x30A]),
      (0xC7, [0x43, 0x327]),
      (0xC8, [0x45, 0x300]), (0xC9, [0x45, 0x301]), (0xCA, [0x45, 0x302]),
      (0xCB, [0x45, 0x308]),
      (0xCC, [0x49, 0x300]), (0xCD, [0x49, 0x301]), (0xCE, [0x49, 0x302]),
      (0xCF, [0x49, 0x308]),
      (0xD1, [0x4E, 0x303]),
      (0xD2, [0x4F, 0x300]), (0xD3, [0x4F, 0x301]), (0xD4, [0x4F, 0x302]),
      (0xD5, [0x4F, 0x303]), (0xD6, [0x4F, 0x308]),
      (0xD9, [0x55, 0x300]), (0xDA, [0x55, 0x301]), (0xDB, [0x55, 0x302]),
      (0xDC, [0x55, 0x308]), (0xDD, [0x59, 0x301]),
      (0xE0, [0x61, 0x300]), (0xE1, [0x61, 0x301]), (0xE2, [0x61, 0x302]),
      (0xE3, [0x61, 0x303]), (0xE4, [0x61, 0x308]), (0xE5, [0x61, 0x30A]),
      (0xE7, [0x63, 0x327]),
      (0xE8, [0x65, 0x300]), (0xE9, [0x65, 0x301]), (0xEA, [0x65, 0x302]),
      (0xEB, [0x65, 0x308]),
      (0xEC, [0x69, 0x300]), (0xED, [0x69, 0x301]), (0xEE, [0x69, 0x302]),
      (0xEF, [0x69, 0x308]),
      (0xF1, [0x6E, 0x303]),
      (0xF2, [0x6F, 0x300]), (0xF3, [0x6F, 0x301]), (0xF4, [0x6F, 0x302]),
      (0xF5, [0x6F, 0x303]), (0xF6, [0x6F, 0x308]),
      (0xF9, [0x75, 0x300]), (0xFA, [0x75, 0x301]), (0xFB, [0x75, 0x302]),
      (0xFC, [0x75, 0x308]), (0xFD, [0x79, 0x301]), (0xFF, [0x79, 0x308])]"

definition nfd_char :: "char \<Rightarrow> codepoint list" where
  "nfd_char c = (case map_of nfd_table (cp c) of Some d \<Rightarrow> d | None \<Rightarrow> [cp c])"

definition nfd :: "string \<Rightarrow> codepoint list" where
  "nfd s = concat (map nfd_char s)"

text \<open>
  \<^verbatim>\<open>unicodedata.category(char) == 'Mn'\<close> on the code points that occur: none below
  U+0100, all of the block of combining diacritical marks U+0300 to U+036F.
\<close>

definition category_Mn :: "codepoint \<Rightarrow> bool" where
  "category_Mn n = (0x300 \<le> n \<and> n \<le> 0x36F)"

text \<open>\<^verbatim>\<open>TextProcessor.normalize_text\<close> on a \<open>str\<close>.\<close>

definition normalize_str :: "string \<Rightarrow> string" where
  "normalize_str text =
     map char_of (filter (\<lambda>n. \<not> category_Mn n) (nfd (py_lower text)))"


subsection \<open>The normalizer on any value\<close>











section \<open>Text utilities of the Python library\<close>

text \<open>\<^verbatim>\<open>str.isspace\<close> and the class \<^verbatim>\<open>\s\<close> of \<^verbatim>\<open>re\<close> agree on the range.\<close>

definition is_space_cp :: "codepoint \<Rightarrow> bool" where
  "is_space_cp n = ((9 \<le> n \<and> n \<le> 13) \<or> (0x1C \<le> n \<and> n \<le> 0x20) \<or> n = 0x85 \<or> n = 0xA0)"

definition is_space :: "char \<Rightarrow> bool" where
  "is_space c = is_space_cp (cp c)"

text \<open>The class \<^verbatim>\<open>\d\<close> of \<^verbatim>\<open>re\<close> (decimal digits) and \<^verbatim>\<open>str.isdigit\<close> (which also
  accepts the superscript digits).\<close>

definition is_decimal :: "char \<Rightarrow> bool" where
  "is_decimal c = (let n = cp c in 0x30 \<le> n \<and> n \<le> 0x39)"

definition is_digit :: "char \<Rightarrow> bool" where
  "is_digit c = (let n = cp c in (0x30 \<le> n \<and> n \<le> 0x39) \<or> n = 0xB2 \<or> n = 0xB3 \<or> n = 0xB9)"

text \<open>The class \<^verbatim>\<open>\w\<close> of \<^verbatim>\<open>re\<close> on \<open>str\<close> patterns: alphanumeric characters and the
  underscore.\<close>

definition is_word :: "char \<Rightarrow> bool" where
  "is_word c =
     (let n = cp c
      in (0x30 \<le> n \<and> n \<le> 0x39) \<or> (0x41 \<le> n \<and> n \<le> 0x5A) \<or> n = 0x5F
         \<or> (0x61 \<le> n \<and> n \<le> 0x7A)
         \<or> n = 0xAA \<or> n = 0xB2 \<or> n = 0xB3 \<or> n = 0xB5 \<or> n = 0xB9 \<or> n = 0xBA
         \<or> (0xBC \<le> n \<and> n \<le> 0xBE)
         \<or> (0xC0 \<le> n \<and> n \<le> 0xD6) \<or> (0xD8 \<le> n \<and> n \<le> 0xF6) \<or> 0xF8 \<le> n)"

text \<open>\<^verbatim>\<open>str.split()\<close> without argument: the maximal runs of characters that are not
  white space. The accumulator holds the current run, reversed.\<close>

fun split_go :: "('a \<Rightarrow> bool) \<Rightarrow> 'a list \<Rightarrow> 'a list \<Rightarrow> 'a list list" where
  "split_go sp acc [] = (if acc = [] then [] else [rev acc])"
| "split_go sp acc (c # cs) =
     (if sp c then (if acc = [] then split_go sp [] cs else rev acc # split_go sp [] cs)
      else split_go sp (c # acc) cs)"

definition py_split :: "string \<Rightarrow> string list" where
  "py_split s = split_go is_space [] s"

text \<open>\<^verbatim>\<open>sep.join(parts)\<close>.\<close>

fun py_join :: "string \<Rightarrow> string list \<Rightarrow> string" where
  "py_join sep [] = []"
| "py_join sep [x] = x"
| "py_join sep (x # y # ys) = x @ sep @ py_join sep (y # ys)"

text \<open>\<^verbatim>\<open>str.strip()\<close> without argument.\<close>

definition py_strip :: "string \<Rightarrow> string" where
  "py_strip s = rev (dropWhile is_space (rev (dropWhile is_space s)))"

text \<open>\<^verbatim>\<open>s.split(sep)\<close> for a separator of one character: empty pieces are kept.\<close>

fun split_on_go :: "char \<Rightarrow> string \<Rightarrow> string \<Rightarrow> string list" where
  "split_on_go sep acc [] = [rev acc]"
| "split_on_go sep acc (c # cs) =
     (if c = sep then rev acc # split_on_go sep [] cs else split_on_go sep (c # acc) cs)"

definition py_split_on :: "char \<Rightarrow> string \<Rightarrow> string list" where
  "py_split_on sep s = split_on_go sep [] s"

text \<open>\<^verbatim>\<open>s.replace(a, b)\<close> for single characters.\<close>

definition py_replace_char :: "char \<Rightarrow> char \<Rightarrow> string \<Rightarrow> string" where
  "py_replace_char a b s = map (\<lambda>c. if c = a then b else c) s"

text \<open>\<^verbatim>\<open>xs[:limit]\<close>: a negative bound counts from the end.\<close>

definition py_slice_to :: "int \<Rightarrow> 'a list \<Rightarrow> 'a list" where
  "py_slice_to limit xs =
     (if 0 \<le> limit then take (nat limit) xs else take (length xs - nat (- limit)) xs)"

subsection \<open>Regular expressions\<close>

text \<open>
  The fragment of \<^verbatim>\<open>re\<close> that the program's patterns use. \<open>NoCase\<close> is a literal under
  \<^verbatim>\<open>re.IGNORECASE\<close>. Repetition is only ever applied to a character class.
\<close>

datatype char_class =
    Lit char
  | NoCase char
  | Digit
  | Space
  | Word
  | OneOf string
  | WordOr string
  | NotWord

fun in_class :: "char_class \<Rightarrow> char \<Rightarrow> bool" where
  "in_class (Lit a) c = (c = a)"
| "in_class (NoCase a) c = (lower_char c = lower_char a)"
| "in_class Digit c = is_decimal c"
| "in_class Space c = is_space c"
| "in_class Word c = is_word c"
| "in_class (OneOf cs) c = (c \<in> set cs)"
| "in_class (WordOr cs) c = (is_word c \<or> c \<in> set cs)"
| "in_class NotWord c = (\<not> is_word c)"

datatype regex =
    Eps
  | Cls char_class
  | Many char_class
  | Many1 char_class
  | Seq regex regex
  | Alt regex regex
  | Opt regex
  | WordB

text \<open>\<^verbatim>\<open>\b\<close>: exactly one of the two neighbouring positions holds a word character; the
  ends of the text count as not being one.\<close>

definition word_boundary :: "char option \<Rightarrow> string \<Rightarrow> bool" where
  "word_boundary prev s =
     ((case prev of None \<Rightarrow> False | Some c \<Rightarrow> is_word c)
      \<noteq> (case s of [] \<Rightarrow> False | c # _ \<Rightarrow> is_word c))"

definition last_char :: "char option \<Rightarrow> string \<Rightarrow> char option" where
  "last_char prev t = (if t = [] then prev else Some (last t))"

text \<open>
  \<open>ends r prev s\<close>: the lengths of the prefixes of \<open>s\<close> that \<open>r\<close> matches, in the order in
  which the backtracking matcher of \<^verbatim>\<open>re\<close> tries them (a greedy repetition the longest first,
  an alternative from left to right). \<open>prev\<close> is the character before \<open>s\<close> in the text.
\<close>

fun ends :: "regex \<Rightarrow> char option \<Rightarrow> string \<Rightarrow> nat list" where
  "ends Eps prev s = [0]"
| "ends (Cls k) prev s = (case s of [] \<Rightarrow> [] | c # _ \<Rightarrow> if in_class k c then [1] else [])"
| "ends (Many k) prev s = rev [0 ..< Suc (length (takeWhile (in_class k) s))]"
| "ends (Many1 k) prev s = rev [1 ..< Suc (length (takeWhile (in_class k) s))]"
| "ends (Seq a b) prev s =
     concat (map (\<lambda>n. map (\<lambda>m. n + m) (ends b (last_char prev (take n s)) (drop n s)))
                 (ends a prev s))"
| "ends (Alt a b) prev s = ends a prev s @ ends b prev s"
| "ends (Opt a) prev s = ends a prev s @ [0]"
| "ends WordB prev s = (if word_boundary prev s then [0] else [])"

text \<open>The match that \<^verbatim>\<open>re\<close> finds at a position: the first in that order.\<close>

definition match_at :: "regex \<Rightarrow> char option \<Rightarrow> string \<Rightarrow> nat option" where
  "match_at r prev s = (case ends r prev s of [] \<Rightarrow> None | n # _ \<Rightarrow> Some n)"

text \<open>
  \<^verbatim>\<open>re.sub(pattern, repl, text)\<close> with a function \<open>repl\<close> of the matched text, and
  \<^verbatim>\<open>re.findall(pattern, text)\<close> for a pattern without groups: a scan from left to right
  over matches that do not overlap. The last argument counts the characters of the
  current match that are still to be skipped. No pattern of the program matches the empty
  string; a position where only the empty string matches is passed over.
\<close>

fun sub_go :: "regex \<Rightarrow> (string \<Rightarrow> string) \<Rightarrow> char option \<Rightarrow> string \<Rightarrow> nat \<Rightarrow> string" where
  "sub_go r f prev [] k = []"
| "sub_go r f prev (c # cs) (Suc k) = sub_go r f (Some c) cs k"
| "sub_go r f prev (c # cs) 0 =
     (case match_at r prev (c # cs) of
        Some (Suc n) \<Rightarrow> f (take (Suc n) (c # cs)) @ sub_go r f (Some c) cs n
      | _ \<Rightarrow> c # sub_go r f (Some c) cs 0)"

definition re_sub :: "regex \<Rightarrow> (string \<Rightarrow> string) \<Rightarrow> string \<Rightarrow> string" where
  "re_sub r f s = sub_go r f None s 0"

fun findall_go :: "regex \<Rightarrow> char option \<Rightarrow> string \<Rightarrow> nat \<Rightarrow> string list" where
  "findall_go r prev [] k = []"
| "findall_go r prev (c # cs) (Suc k) = findall_go r (Some c) cs k"
| "findall_go r prev (c # cs) 0 =
     (case match_at r prev (c # cs) of
        Some (Suc n) \<Rightarrow> take (Suc n) (c # cs) # findall_go r (Some c) cs n
      | _ \<Rightarrow> findall_go r (Some c) cs 0)"

definition re_findall :: "regex \<Rightarrow> string \<Rightarrow> string list" where
  "re_findall r s = findall_go r None s 0"



text \<open>A literal text as a pattern (\<^verbatim>\<open>re.escape\<close>), and the same under \<^verbatim>\<open>re.IGNORECASE\<close>.\<close>

fun lit :: "string \<Rightarrow> regex" where
  "lit [] = Eps"
| "lit (c # cs) = Seq (Cls (Lit c)) (lit cs)"

fun liti :: "string \<Rightarrow> regex" where
  "liti [] = Eps"
| "liti (c # cs) = Seq (Cls (NoCase c)) (liti cs)"

section \<open>text\_processor.py\<close>

text \<open>\<^verbatim>\<open>(\d+)\s*(kg/m[23]?|kg|l/m[23]?)\<close>, \<^verbatim>\<open>re.IGNORECASE\<close>.\<close>

definition DOSAGE_PATTERN :: regex where
  "DOSAGE_PATTERN =
     Seq (Many1 Digit) (Seq (Many Space)
       (Alt (Seq (liti ''kg/m'') (Opt (Cls (OneOf ''23''))))
       (Alt (liti ''kg'')
            (Seq (liti ''l/m'') (Opt (Cls (OneOf ''23'')))))))"

text \<open>\<^verbatim>\<open>(\d+)\s*x\s*(\d+)(?:\s*x\s*(\d+))?\<close>, \<^verbatim>\<open>re.IGNORECASE\<close>.\<close>

definition DIMENSION_PATTERN :: regex where
  "DIMENSION_PATTERN =
     Seq (Many1 Digit) (Seq (Many Space) (Seq (Cls (NoCase CHR ''x'')) (Seq (Many Space)
       (Seq (Many1 Digit)
         (Opt (Seq (Many Space) (Seq (Cls (NoCase CHR ''x'')) (Seq (Many Space)
            (Many1 Digit)))))))))"

text \<open>\<^verbatim>\<open>(\d+(?:[.,]\d+)?)\s*(m[23]?|cm|mm|kg|l|ml|cl)\<close>, \<^verbatim>\<open>re.IGNORECASE\<close>.\<close>

definition MEASUREMENT_PATTERN :: regex where
  "MEASUREMENT_PATTERN =
     Seq (Seq (Many1 Digit) (Opt (Seq (Cls (OneOf ''.,'')) (Many1 Digit))))
       (Seq (Many Space)
         (Alt (Seq (liti ''m'') (Opt (Cls (OneOf ''23''))))
         (Alt (liti ''cm'') (Alt (liti ''mm'') (Alt (liti ''kg'') (Alt (liti ''l'')
         (Alt (liti ''ml'') (liti ''cl''))))))))"

definition STOP_WORDS_BTP :: "string list" where
  "STOP_WORDS_BTP =
     [''de'', ''la'', ''le'', ''et'', ''en'', ''un'', ''une'', ''avec'', ''du'', ''des'', ''les'',
      ''pour'', ''sur'', ''dans'', ''par'', ''au'', ''aux'', ''ce'', ''ces'', ''son'', ''sa'',
      ''y'', ''compris'']"

text \<open>The table of abbreviations, in the order of the source (the order in which the
  substitutions are made). \<open>CHR 0xE9\<close>, \<open>CHR 0xE8\<close> and \<open>CHR 0xE2\<close> are the letters e with
  acute, e with grave and a with circumflex.\<close>

definition ABBREVIATIONS_BTP :: "(string \<times> string) list" where
  "ABBREVIATIONS_BTP =
     [(''allu'', ''aluminium''), (''alu'', ''aluminium''),
      (''galva'', ''galvanis'' @ [CHR 0xE9]),
      (''metal'', ''m'' @ [CHR 0xE9] @ ''tallique''),
      (''m2'', ''m'' @ [CHR 0xE8] @ ''tre carr'' @ [CHR 0xE9]),
      (''m3'', ''m'' @ [CHR 0xE8] @ ''tre cube''),
      (''cm'', ''centim'' @ [CHR 0xE8] @ ''tre''),
      (''mm'', ''millim'' @ [CHR 0xE8] @ ''tre''),
      (''kg'', ''kilogramme''),
      (''ep'', [CHR 0xE9] @ ''paisseur''), (''dim'', ''dimension''), (''ht'', ''hauteur''),
      (''lg'', ''longueur''), (''larg'', ''largeur''), (''prof'', ''profondeur''),
      (''diam'', ''diam'' @ [CHR 0xE8] @ ''tre''),
      (''epaiss'', [CHR 0xE9] @ ''paisseur''),
      (''bat'', ''b'' @ [CHR 0xE2] @ ''timent''),
      (''elec'', [CHR 0xE9] @ ''lectricit'' @ [CHR 0xE9]),
      (''plomb'', ''plomberie''), (''menuis'', ''menuiserie'')]"

text \<open>One substitution \<^verbatim>\<open>re.sub(r'\b' + re.escape(abbrev) + r'\b', full, text)\<close>.\<close>

definition expand_abbreviation :: "string \<Rightarrow> string \<times> string \<Rightarrow> string" where
  "expand_abbreviation text af =
     re_sub (Seq WordB (Seq (lit (fst af)) WordB)) (\<lambda>_. snd af) text"

text \<open>The replacement \<^verbatim>\<open>lambda m: m.group(0).replace(' ', '_')\<close>.\<close>

definition protect :: "regex \<Rightarrow> string \<Rightarrow> string" where
  "protect r text = re_sub r (py_replace_char CHR '' '' CHR ''_'') text"

text \<open>\<^verbatim>\<open>\b[\w/_-]+\b\<close>.\<close>

definition TOKEN_PATTERN :: regex where
  "TOKEN_PATTERN = Seq WordB (Seq (Many1 (WordOr ''/_-'')) WordB)"

text \<open>The filter at the end of \<^verbatim>\<open>tokenize_btp\<close>, for one token.\<close>

definition keep_token :: "string \<Rightarrow> string list" where
  "keep_token token =
     (let token_restored = py_replace_char CHR ''_'' CHR '' '' token
      in if token_restored \<notin> set STOP_WORDS_BTP \<or> (\<exists>c \<in> set token_restored. is_digit c)
         then (if length token_restored > 1 then [token_restored] else [])
         else [])"

text \<open>\<^verbatim>\<open>TextProcessor.tokenize_btp\<close>.\<close>

definition tokenize_btp :: "string \<Rightarrow> bool \<Rightarrow> string list" where
  "tokenize_btp text preserve_technical =
     (let text1 = py_lower text;
          text2 = foldl expand_abbreviation text1 ABBREVIATIONS_BTP;
          text3 = (if preserve_technical
                   then protect MEASUREMENT_PATTERN
                          (protect DIMENSION_PATTERN (protect DOSAGE_PATTERN text2))
                   else text2);
          tokens = re_findall TOKEN_PATTERN text3
      in concat (map keep_token tokens))"

section \<open>Python containers\<close>

text \<open>
  A \<open>dict\<close> is an association list with distinct keys, in insertion order
  (\<open>AList.update\<close> assigns in place or appends, \<open>map_of\<close> looks up). A \<open>set\<close> of strings is
  a list without duplicates, in the order in which the elements were added. The order in which Python iterates a set of strings depends
  on the hashes of the strings, which differ from one process to the next: where the
  program turns a set into a list, the model applies a parameter of type \<open>set_order\<close>,
  which rearranges the elements.
\<close>

type_synonym ('k, 'v) dict = "('k \<times> 'v) list"

text \<open>\<^verbatim>\<open>set(xs)\<close>: the distinct elements, each at its first occurrence.\<close>

definition py_set :: "'a list \<Rightarrow> 'a list" where
  "py_set xs = rev (remdups (rev xs))"

type_synonym set_order = "string list \<Rightarrow> string list"

definition set_order_ok :: "set_order \<Rightarrow> bool" where
  "set_order_ok order = (\<forall>xs. mset (order xs) = mset xs)"

definition insertion_order :: set_order where
  "insertion_order xs = xs"

text \<open>The result of \<^verbatim>\<open>json.load\<close> on a file: the file may be absent, or not be JSON.
  An object is read into a \<open>dict\<close>: a key that occurs again replaces the value.\<close>

datatype 'a json_file = FileMissing | FileInvalid | FileData 'a

definition json_object :: "('k \<times> 'v) list \<Rightarrow> ('k, 'v) dict" where
  "json_object pairs = foldl (\<lambda>d kv. AList.update (fst kv) (snd kv) d) [] pairs"

section \<open>corrector.py\<close>

text \<open>\<^verbatim>\<open>Corrector._load_corrections\<close>: the inverted map from each normalized variation
  to its correct word; empty when the file is missing or is not JSON.\<close>

definition add_variations ::
  "(string, string) dict \<Rightarrow> string \<times> string list \<Rightarrow> (string, string) dict" where
  "add_variations correction_map entry =
     foldl (\<lambda>m variation. AList.update (normalize_str variation) (fst entry) m)
           correction_map (snd entry)"

definition load_corrections ::
  "(string \<times> string list) list json_file \<Rightarrow> (string, string) dict" where
  "load_corrections file =
     (case file of
        FileData pairs \<Rightarrow> foldl add_variations [] (json_object pairs)
      | _ \<Rightarrow> [])"

text \<open>\<^verbatim>\<open>self.correction_map.get(token, token)\<close>.\<close>

definition correct_token :: "(string, string) dict \<Rightarrow> string \<Rightarrow> string" where
  "correct_token correction_map token =
     (case map_of correction_map token of Some w \<Rightarrow> w | None \<Rightarrow> token)"

text \<open>\<^verbatim>\<open>Corrector.correct_query\<close>.\<close>

definition correct_query :: "(string, string) dict \<Rightarrow> string \<Rightarrow> string" where
  "correct_query correction_map query =
     (if correction_map = [] then query
      else py_join '' '' (map (correct_token correction_map) (py_split (normalize_str query))))"

section \<open>dictionary\_manager.py\<close>

record dictionary_manager =
  dictionary :: "(string, string list) dict"
  reverse_index :: "(string, string list) dict"

text \<open>\<^verbatim>\<open>self.reverse_index[normalized_synonym].add(normalized_main_term)\<close> on a
  \<^verbatim>\<open>defaultdict(set)\<close>.\<close>

definition index_add ::
  "(string, string list) dict \<Rightarrow> string \<Rightarrow> string \<Rightarrow> (string, string list) dict" where
  "index_add idx key term =
     (case map_of idx key of
        None \<Rightarrow> AList.update key [term] idx
      | Some terms \<Rightarrow> if term \<in> set terms then idx else AList.update key (terms @ [term]) idx)"

definition index_entry ::
  "(string, string list) dict \<Rightarrow> string \<times> string list \<Rightarrow> (string, string list) dict" where
  "index_entry idx entry =
     (let normalized_main_term = normalize_str (fst entry)
      in foldl (\<lambda>i synonym. index_add i (normalize_str synonym) normalized_main_term)
               idx (snd entry))"

text \<open>\<^verbatim>\<open>DictionaryManager._build_reverse_index\<close>.\<close>

definition build_reverse_index ::
  "(string, string list) dict \<Rightarrow> (string, string list) dict" where
  "build_reverse_index d = foldl index_entry [] d"

text \<open>\<^verbatim>\<open>DictionaryManager.load_dictionary\<close>, as the constructor calls it.\<close>

definition load_dictionary :: "(string \<times> string list) list json_file \<Rightarrow> dictionary_manager" where
  "load_dictionary file =
     (let d = (case file of FileData pairs \<Rightarrow> json_object pairs | _ \<Rightarrow> [])
      in \<lparr>dictionary = d, reverse_index = build_reverse_index d\<rparr>)"

text \<open>\<^verbatim>\<open>self.dictionary.get(main_term, [])\<close>.\<close>

definition dictionary_get :: "dictionary_manager \<Rightarrow> string \<Rightarrow> string list" where
  "dictionary_get dm main_term =
     (case map_of (dictionary dm) main_term of Some synonyms \<Rightarrow> synonyms | None \<Rightarrow> [])"

text \<open>The synonyms that the loop of \<^verbatim>\<open>expand_query\<close> collects for one token.\<close>

definition token_synonyms :: "dictionary_manager \<Rightarrow> string \<Rightarrow> string list" where
  "token_synonyms dm token =
     (case map_of (reverse_index dm) token of
        None \<Rightarrow> []
      | Some main_terms \<Rightarrow> concat (map (dictionary_get dm) main_terms))"

text \<open>The tokens of the query, and the set \<^verbatim>\<open>expanded_terms\<close> before it is cut.\<close>

definition expand_tokens :: "string \<Rightarrow> string list" where
  "expand_tokens query = py_set (tokenize_btp (normalize_str query) False)"

definition expanded_terms :: "dictionary_manager \<Rightarrow> string \<Rightarrow> string list" where
  "expanded_terms dm query =
     (let query_tokens = expand_tokens query
      in py_set (concat (map (token_synonyms dm) query_tokens) @ query_tokens))"

text \<open>\<^verbatim>\<open>DictionaryManager.expand_query\<close>; its callers leave \<^verbatim>\<open>max_expansions\<close> at 10.\<close>

definition expand_query :: "dictionary_manager \<Rightarrow> set_order \<Rightarrow> string \<Rightarrow> int \<Rightarrow> string list" where
  "expand_query dm order query max_expansions =
     py_slice_to max_expansions (order (expanded_terms dm query))"

section \<open>search\_engine.py\<close>

text \<open>A row of the catalogue as \<^verbatim>\<open>load_library\<close> hands it over: three strings.\<close>

record row =
  Designation :: string
  Prix :: string
  Unite :: string

record SearchResult =
  designation :: string
  prix :: string
  unite :: string
  score :: int
  match_type :: string
  matched_terms :: "string list"
  num_matches :: nat

definition D1_label :: string where
  "D1_label = ''Mots-cl'' @ [CHR 0xE9] @ ''s partiels (D1)''"

definition D2_label :: string where
  "D2_label = ''Tous les mots-cl'' @ [CHR 0xE9] @ ''s (D2)''"

definition D3_label :: string where
  "D3_label = ''Synonymes (D3)''"

text \<open>\<^verbatim>\<open>BTCSearchEngine._get_flexible_matches\<close>: \<^verbatim>\<open>d.startswith(q)\<close> is \<open>prefix q d\<close>.\<close>

definition get_flexible_matches :: "string list \<Rightarrow> string list \<Rightarrow> string list" where
  "get_flexible_matches query_tokens designation_tokens =
     filter (\<lambda>q_token. \<exists>d_token \<in> set designation_tokens.
                prefix q_token d_token \<or> prefix d_token q_token)
            query_tokens"

text \<open>The column \<^verbatim>\<open>designation_tokens\<close> of a row.\<close>

definition designation_tokens :: "row \<Rightarrow> string list" where
  "designation_tokens r = py_set (tokenize_btp (normalize_str (Designation r)) True)"

text \<open>The score that the first loop of \<^verbatim>\<open>search\<close> gives a row with matches:
  \<^verbatim>\<open>len(matches) * 10\<close>, and 5 more when
  \<^verbatim>\<open>query_tokens.intersection(row['designation_tokens'])\<close> is not empty.\<close>

definition d1_score :: "string list \<Rightarrow> row \<Rightarrow> int" where
  "d1_score query_tokens r =
     int (length (get_flexible_matches query_tokens (designation_tokens r))) * 10
     + (if \<exists>t \<in> set query_tokens. t \<in> set (designation_tokens r) then 5 else 0)"

text \<open>The body of the first loop of \<^verbatim>\<open>search\<close>, for one row.\<close>

definition d1_entry :: "set_order \<Rightarrow> string list \<Rightarrow> row \<Rightarrow> SearchResult list" where
  "d1_entry order query_tokens r =
     (let matches = get_flexible_matches query_tokens (designation_tokens r)
      in if matches \<noteq> []
         then [\<lparr>designation = Designation r, prix = Prix r, unite = Unite r,
                score = d1_score query_tokens r,
                match_type = D1_label, matched_terms = order matches,
                num_matches = length matches\<rparr>]
         else [])"

definition results_d1 :: "set_order \<Rightarrow> string list \<Rightarrow> row list \<Rightarrow> SearchResult list" where
  "results_d1 order query_tokens df = concat (map (d1_entry order query_tokens) df)"

text \<open>The body of the last loop of \<^verbatim>\<open>search\<close>, for one row.\<close>

definition d3_entry :: "set_order \<Rightarrow> string list \<Rightarrow> row \<Rightarrow> SearchResult list" where
  "d3_entry order synonym_terms r =
     (let matches = get_flexible_matches synonym_terms (designation_tokens r)
      in if matches \<noteq> []
         then [\<lparr>designation = Designation r, prix = Prix r, unite = Unite r,
                score = int (length matches) * 5,
                match_type = D3_label, matched_terms = order matches,
                num_matches = length matches\<rparr>]
         else [])"

definition results_d3 :: "set_order \<Rightarrow> string list \<Rightarrow> row list \<Rightarrow> SearchResult list" where
  "results_d3 order synonym_terms df = concat (map (d3_entry order synonym_terms) df)"

text \<open>\<^verbatim>\<open>results.sort(key=lambda r: r.score, reverse=True)\<close>: a stable sort, the highest
  score first.\<close>

definition sort_by_score :: "SearchResult list \<Rightarrow> SearchResult list" where
  "sort_by_score rs = sort_key (\<lambda>r. - score r) rs"

text \<open>The update of a result that passes the filter of the second step.\<close>

definition promote_d2 :: "SearchResult \<Rightarrow> SearchResult" where
  "promote_d2 r = r\<lparr>score := score r + 50, match_type := D2_label\<rparr>"

text \<open>The state of the engine: the map of the corrector, the dictionary manager, and the
  iteration order of sets.\<close>

record engine =
  correction_map :: "(string, string) dict"
  manager :: dictionary_manager
  order :: set_order

definition corrected_query :: "engine \<Rightarrow> string \<Rightarrow> string" where
  "corrected_query e query = correct_query (correction_map e) query"

definition query_norm :: "engine \<Rightarrow> string \<Rightarrow> string" where
  "query_norm e query = normalize_str (corrected_query e query)"

definition query_tokens :: "engine \<Rightarrow> string \<Rightarrow> string list" where
  "query_tokens e query = py_set (tokenize_btp (query_norm e query) False)"

text \<open>The third step of \<^verbatim>\<open>search\<close>, from \<^verbatim>\<open>expanded_terms = ...\<close> to the end.\<close>

definition search_d3 :: "engine \<Rightarrow> row list \<Rightarrow> string \<Rightarrow> int \<Rightarrow> SearchResult list" where
  "search_d3 e df query limit =
     (let expanded = py_set (expand_query (manager e) (order e) (corrected_query e query) 10);
          synonym_terms = filter (\<lambda>t. t \<notin> set (query_tokens e query)) expanded
      in if synonym_terms = [] then []
         else (let d3 = results_d3 (order e) synonym_terms df
               in if d3 \<noteq> [] then py_slice_to limit (sort_by_score d3) else []))"

text \<open>\<^verbatim>\<open>BTCSearchEngine.search\<close>.\<close>

definition search :: "engine \<Rightarrow> row list \<Rightarrow> string \<Rightarrow> int \<Rightarrow> SearchResult list" where
  "search e df query limit =
     (if query = [] \<or> length (py_strip query) < 2 then []
      else
        (let qt = query_tokens e query;
             num_query_tokens = length qt
         in if qt = [] then []
            else
              (let d1 = results_d1 (order e) qt df
               in if d1 = [] then search_d3 e df query limit
                  else
                    (let d2 = (if num_query_tokens > 1
                               then filter (\<lambda>r. num_matches r = num_query_tokens) d1
                               else [])
                     in if d2 \<noteq> []
                        then py_slice_to limit (sort_by_score (map promote_d2 d2))
                        else py_slice_to limit (sort_by_score d1)))))"

text \<open>The list that \<^verbatim>\<open>search\<close> sorts and cuts before it returns: the results of the step
  that answers, in the order of the scan of the catalogue (empty where \<^verbatim>\<open>search\<close> returns
  the empty list at once).\<close>

definition search_candidates :: "engine \<Rightarrow> row list \<Rightarrow> string \<Rightarrow> SearchResult list" where
  "search_candidates e df query =
     (if query = [] \<or> length (py_strip query) < 2 then []
      else
        (let qt = query_tokens e query;
             d1 = results_d1 (order e) qt df;
             d2 = (if length qt > 1 then filter (\<lambda>r. num_matches r = length qt) d1 else [])
         in if qt = [] then []
            else if d1 = []
            then results_d3 (order e)
                   (filter (\<lambda>t. t \<notin> set qt)
                      (py_set (expand_query (manager e) (order e) (corrected_query e query) 10)))
                   df
            else if d2 \<noteq> [] then map promote_d2 d2 else d1))"

section \<open>recup/backend.py: the catalogue tree\<close>

text \<open>A row of the cleaned table that \<^verbatim>\<open>load_csv_file\<close> builds: every column holds a
  string. A table is the list of its rows, each with its index label.\<close>

record csv_row =
  r_Code :: string
  r_Designation :: string
  r_Unite :: string
  r_Minimum :: string
  r_Moyen :: string
  r_Maximum :: string

record hierarchy =
  h_main :: string
  h_title :: string
  h_subtitle :: string
  h_subsubtitle :: string
  h_item :: string
  h_detail :: string

text \<open>\<^verbatim>\<open>parts[i] if len(parts) > i else ""\<close>.\<close>

definition part :: "string list \<Rightarrow> nat \<Rightarrow> string" where
  "part parts i = (if length parts > i then parts ! i else [])"

text \<open>\<^verbatim>\<open>parse_code_hierarchy\<close>; \<open>None\<close> is Python's \<^verbatim>\<open>None\<close>.\<close>

definition parse_code_hierarchy :: "string \<Rightarrow> hierarchy option" where
  "parse_code_hierarchy code =
     (let parts = py_split_on CHR ''.'' code
      in if length parts < 3 then None
         else Some \<lparr>h_main = part parts 0, h_title = part parts 1, h_subtitle = part parts 2,
                    h_subsubtitle = part parts 3, h_item = part parts 4,
                    h_detail = part parts 5\<rparr>)"

datatype entry_type = Title | Subtitle | Content

text \<open>\<^verbatim>\<open>identify_entry_type\<close> (its first argument is not used).\<close>

definition identify_entry_type :: "string \<Rightarrow> entry_type" where
  "identify_entry_type code =
     (let parts = py_split_on CHR ''.'' code
      in if length parts = 3 \<and> part parts 2 \<in> set [''0'', []] then Title
         else if length parts = 4 \<and> part parts 3 \<in> set [''0'', []] then Subtitle
         else Content)"

record content_item =
  c_index :: int
  c_code :: string
  c_designation :: string
  c_unite :: string
  c_minimum :: string
  c_moyen :: string
  c_maximum :: string
  c_hierarchy :: hierarchy

record subtitle_node =
  s_subtitle :: string
  s_subtitle_index :: int
  s_content :: "content_item list"

record title_node =
  t_title :: string
  t_title_index :: "int option"
  t_subtitles :: "(string, subtitle_node) dict"
  t_content :: "content_item list"

type_synonym hierarchical_data = "(string, title_node) dict"

definition title_key_of :: "hierarchy \<Rightarrow> string" where
  "title_key_of h = h_main h @ ''.'' @ h_title h @ ''.'' @ h_subtitle h"

definition subtitle_key_of :: "hierarchy \<Rightarrow> string" where
  "subtitle_key_of h =
     (if h_subsubtitle h \<noteq> [] then title_key_of h @ ''.'' @ h_subsubtitle h
      else title_key_of h)"

text \<open>The node that \<^verbatim>\<open>structure[title_key]\<close> is after the initialisation of a missing
  key.\<close>

definition title_node_at :: "hierarchical_data \<Rightarrow> string \<Rightarrow> title_node" where
  "title_node_at struct title_key =
     (case map_of struct title_key of
        Some node \<Rightarrow> node
      | None \<Rightarrow> \<lparr>t_title = [], t_title_index = None, t_subtitles = [], t_content = []\<rparr>)"

definition make_content_item :: "int \<Rightarrow> csv_row \<Rightarrow> hierarchy \<Rightarrow> content_item" where
  "make_content_item idx r h =
     \<lparr>c_index = idx, c_code = r_Code r, c_designation = r_Designation r,
      c_unite = r_Unite r, c_minimum = r_Minimum r, c_moyen = r_Moyen r,
      c_maximum = r_Maximum r, c_hierarchy = h\<rparr>"

text \<open>The three branches on the entry type, as updates of the title node.\<close>

definition set_title :: "title_node \<Rightarrow> int \<Rightarrow> string \<Rightarrow> title_node" where
  "set_title node idx desig = node\<lparr>t_title := desig, t_title_index := Some idx\<rparr>"

definition set_subtitle :: "title_node \<Rightarrow> string \<Rightarrow> int \<Rightarrow> string \<Rightarrow> title_node" where
  "set_subtitle node subtitle_key idx desig =
     (case map_of (t_subtitles node) subtitle_key of
        None \<Rightarrow>
          node\<lparr>t_subtitles := AList.update subtitle_key
                   \<lparr>s_subtitle = desig, s_subtitle_index = idx, s_content = []\<rparr>
                   (t_subtitles node)\<rparr>
      | Some sub \<Rightarrow>
          node\<lparr>t_subtitles := AList.update subtitle_key
                   (sub\<lparr>s_subtitle := desig, s_subtitle_index := idx\<rparr>)
                   (t_subtitles node)\<rparr>)"

text \<open>The branch for a content row: \<^verbatim>\<open>if hierarchy['subsubtitle'] and subtitle_key in
  structure[title_key]["subtitles"]\<close> the item goes to that subtitle, else to the title.\<close>

definition add_content :: "title_node \<Rightarrow> hierarchy \<Rightarrow> content_item \<Rightarrow> title_node" where
  "add_content node h item =
     (if h_subsubtitle h \<noteq> [] \<and> subtitle_key_of h \<in> fst ` set (t_subtitles node)
      then (case map_of (t_subtitles node) (subtitle_key_of h) of
              Some sub \<Rightarrow>
                node\<lparr>t_subtitles := AList.update (subtitle_key_of h)
                         (sub\<lparr>s_content := s_content sub @ [item]\<rparr>) (t_subtitles node)\<rparr>
            | None \<Rightarrow> node)
      else node\<lparr>t_content := t_content node @ [item]\<rparr>)"

text \<open>The body of the loop of \<^verbatim>\<open>build_hierarchical_structure\<close>, for one row.\<close>

definition process_row :: "hierarchical_data \<Rightarrow> int \<times> csv_row \<Rightarrow> hierarchical_data" where
  "process_row struct ir =
     (let idx = fst ir; r = snd ir; code = r_Code r; desig = r_Designation r
      in case parse_code_hierarchy code of
           None \<Rightarrow> struct
         | Some h \<Rightarrow>
             (let title_key = title_key_of h;
                  node = title_node_at struct title_key
              in AList.update title_key
                   (case identify_entry_type code of
                      Title \<Rightarrow> set_title node idx desig
                    | Subtitle \<Rightarrow> set_subtitle node (subtitle_key_of h) idx desig
                    | Content \<Rightarrow> add_content node h (make_content_item idx r h))
                   struct))"

text \<open>\<^verbatim>\<open>build_hierarchical_structure\<close>.\<close>

definition build_hierarchical_structure :: "(int \<times> csv_row) list \<Rightarrow> hierarchical_data" where
  "build_hierarchical_structure df = foldl process_row [] df"

subsection \<open>Views of the tree\<close>

definition title_content :: "hierarchical_data \<Rightarrow> string \<Rightarrow> content_item list" where
  "title_content struct title_key = t_content (title_node_at struct title_key)"

definition subtitle_keys :: "hierarchical_data \<Rightarrow> string \<Rightarrow> string list" where
  "subtitle_keys struct title_key = map fst (t_subtitles (title_node_at struct title_key))"

definition subtitle_content :: "hierarchical_data \<Rightarrow> string \<Rightarrow> string \<Rightarrow> content_item list" where
  "subtitle_content struct title_key subtitle_key =
     (case map_of (t_subtitles (title_node_at struct title_key)) subtitle_key of
        Some sub \<Rightarrow> s_content sub
      | None \<Rightarrow> [])"

text \<open>Every content item of the tree, and the rows that parse.\<close>

definition tree_items :: "hierarchical_data \<Rightarrow> content_item list" where
  "tree_items struct =
     concat (map (\<lambda>kn. t_content (snd kn)
                        @ concat (map (\<lambda>ks. s_content (snd ks)) (t_subtitles (snd kn))))
                 struct)"

definition parses :: "int \<times> csv_row \<Rightarrow> bool" where
  "parses ir = (3 \<le> length (py_split_on CHR ''.'' (r_Code (snd ir))))"

definition example_row :: "string \<Rightarrow> string \<Rightarrow> csv_row" where
  "example_row code desig =
     \<lparr>r_Code = code, r_Designation = desig, r_Unite = ''m3'', r_Minimum = ''1'',
      r_Moyen = ''2'', r_Maximum = ''3''\<rparr>"

definition example_table :: "(int \<times> csv_row) list" where
  "example_table =
     [(0, example_row ''03.1.0'' ''FONDATIONS''),
      (1, example_row ''03.1.0.0'' ''SEMELLES''),
      (2, example_row ''03.1.0.0.001'' ''semelle beton arme''),
      (3, example_row ''03.1.0.1.001'' ''beton de proprete''),
      (4, example_row ''03.1'' ''ligne sans code complet'')]"

definition example_hierarchy :: "string \<Rightarrow> string \<Rightarrow> hierarchy" where
  "example_hierarchy subsubtitle item =
     \<lparr>h_main = ''03'', h_title = ''1'', h_subtitle = ''0'', h_subsubtitle = subsubtitle,
      h_item = item, h_detail = []\<rparr>"

text \<open>The same rows with the content row before its subtitle row.\<close>

definition example_table_reordered :: "(int \<times> csv_row) list" where
  "example_table_reordered =
     [(0, example_row ''03.1.0'' ''FONDATIONS''),
      (2, example_row ''03.1.0.0.001'' ''semelle beton arme''),
      (1, example_row ''03.1.0.0'' ''SEMELLES'')]"

section \<open>recup/backend.py: the search route\<close>









text \<open>A row of \<^verbatim>\<open>df_search\<close>.\<close>

record 'e search_row =
  g_index :: int
  g_Designation :: string
  g_Unite :: string
  g_Minimum :: string
  g_Moyen :: string
  g_Maximum :: string
  g_embeddings :: 'e

record 'e csv_data =
  hierarchical_data :: hierarchical_data
  df_search :: "'e search_row list"































subsection \<open>Example data for the route\<close>




subsection \<open>The specification's wording, for comparison\<close>

text \<open>The score of the first tier as the specification words it: ten for each flexible
  match, and five more when the whole normalized query occurs in the normalized
  designation.\<close>

definition spec_d1_score :: "string \<Rightarrow> string list \<Rightarrow> row \<Rightarrow> int" where
  "spec_d1_score normalized_query tokens r =
     10 * int (length (get_flexible_matches tokens (designation_tokens r)))
     + (if sublist normalized_query (normalize_str (Designation r)) then 5 else 0)"


subsection \<open>Example data\<close>

definition semelle_corrections :: "(string \<times> string list) list json_file" where
  "semelle_corrections = FileData [(''semelle'', [''semell'', ''semelles''])]"

definition beton_dictionary :: "(string \<times> string list) list json_file" where
  "beton_dictionary = FileData [(''beton'', [''beton'', ''ciment'', ''mortier''])]"

text \<open>The entry for paint of the default technical dictionary, with its eleven
  synonyms.\<close>

definition peinture_dictionary :: "(string \<times> string list) list json_file" where
  "peinture_dictionary =
     FileData [(''peinture'',
       [''peinture'', ''badigeon'', ''revetement'', ''finition'', ''FOM'', ''Enduit'',
        ''Peinture '' @ [CHR 0xE0] @ '' eau'', ''Peinture'', ''Pl'' @ [CHR 0xE2] @ ''tre'',
        ''Phaum'', ''Faume''])]"

text \<open>A dictionary with a key in capitals beside its normalized form.\<close>

definition capital_dictionary :: "(string \<times> string list) list json_file" where
  "capital_dictionary =
     FileData [(''Beton'', [''ciment'', ''mortier'']), (''beton'', [''mortier''])]"

definition example_engine :: engine where
  "example_engine =
     \<lparr>correction_map = load_corrections semelle_corrections,
      manager = load_dictionary beton_dictionary,
      order = insertion_order\<rparr>"

definition example_catalog :: "row list" where
  "example_catalog =
     [\<lparr>Designation = ''semelle beton arme'', Prix = ''100'', Unite = ''m3''\<rparr>,
      \<lparr>Designation = ''semelle beton'', Prix = ''90'', Unite = ''m3''\<rparr>,
      \<lparr>Designation = ''Mortier de pose'', Prix = ''9'', Unite = ''m3''\<rparr>]"

text \<open>A dictionary whose only key is written with a capital.\<close>

definition capital_only_dictionary :: "(string \<times> string list) list json_file" where
  "capital_only_dictionary = FileData [(''Beton'', [''ciment'', ''mortier''])]"

subsection \<open>Invariants\<close>

text \<open>Every pair of a key and a term held by an index satisfies \<open>P\<close>.\<close>

definition index_all :: "(string \<Rightarrow> string \<Rightarrow> bool) \<Rightarrow> (string, string list) dict \<Rightarrow> bool" where
  "index_all P idx = (\<forall>key terms term. map_of idx key = Some terms \<and> term \<in> set terms \<longrightarrow> P key term)"

section \<open>Normalizer: properties\<close>




lemma char_of_cp [simp]: "char_of (cp c) = c"
  by (simp add: cp_def)














subsection \<open>The two forms of the normalizer agree on the range\<close>














section \<open>Library facts\<close>

lemma set_py_set [simp]: "set (py_set xs) = set xs"
  by (simp add: py_set_def)

lemma distinct_py_set [simp]: "distinct (py_set xs)"
  by (simp add: py_set_def)

lemma py_set_Nil [simp]: "py_set [] = []"
  by (simp add: py_set_def)

lemma set_py_slice_to: "set (py_slice_to n xs) \<subseteq> set xs"
  by (auto simp: py_slice_to_def dest: in_set_takeD)

lemma py_slice_to_all: "int (length xs) \<le> n \<Longrightarrow> py_slice_to n xs = xs"
  by (simp add: py_slice_to_def)

lemma length_py_slice_to: "0 \<le> n \<Longrightarrow> int (length (py_slice_to n xs)) \<le> n"
  by (simp add: py_slice_to_def)

lemma sorted_wrt_py_slice_to: "sorted_wrt R xs \<Longrightarrow> sorted_wrt R (py_slice_to n xs)"
  by (simp add: py_slice_to_def sorted_wrt_take)

lemma set_order_ok_set: "set_order_ok so \<Longrightarrow> set (so xs) = set xs"
  unfolding set_order_ok_def by (metis set_mset_mset)

lemma set_order_ok_length: "set_order_ok so \<Longrightarrow> length (so xs) = length xs"
  unfolding set_order_ok_def by (metis size_mset)

lemma insertion_order_ok: "set_order_ok insertion_order"
  by (simp add: set_order_ok_def insertion_order_def)

lemma sorted_sort_by_score: "sorted_wrt (\<lambda>a b. score b \<le> score a) (sort_by_score rs)"
proof -
  have "sorted (map (\<lambda>r. - score r) (sort_by_score rs))"
    unfolding sort_by_score_def by (rule sorted_sort_key)
  then show ?thesis by (simp add: sorted_map)
qed

lemma sort_by_score_stable:
  "filter (\<lambda>r. score r = k) (sort_by_score rs) = filter (\<lambda>r. score r = k) rs"
proof -
  have "filter (\<lambda>r. - score r = - k) (sort_key (\<lambda>r. - score r) rs)
        = filter (\<lambda>r. - score r = - k) rs"
    by (rule sort_key_stable)
  then show ?thesis by (simp add: sort_by_score_def)
qed

section \<open>The search tiers: properties\<close>

lemma in_get_flexible_matches:
  "s \<in> set (get_flexible_matches qs ds)
   \<longleftrightarrow> s \<in> set qs \<and> (\<exists>d \<in> set ds. prefix s d \<or> prefix d s)"
  by (auto simp: get_flexible_matches_def)

lemma common_token_matches:
  assumes "t \<in> set qs" "t \<in> set ds"
  shows "get_flexible_matches qs ds \<noteq> []"
proof -
  have "t \<in> set (get_flexible_matches qs ds)"
    using assms by (auto simp: in_get_flexible_matches)
  then show ?thesis by auto
qed

lemma d1_score_pos_iff:
  "0 < d1_score qt r \<longleftrightarrow> get_flexible_matches qt (designation_tokens r) \<noteq> []"
proof (cases "get_flexible_matches qt (designation_tokens r) = []")
  case True
  then have "\<not> (\<exists>t \<in> set qt. t \<in> set (designation_tokens r))"
    using common_token_matches by blast
  with True show ?thesis by (simp add: d1_score_def)
next
  case False
  then have "0 < length (get_flexible_matches qt (designation_tokens r))" by simp
  with False show ?thesis by (simp add: d1_score_def)
qed

lemma d1_entry_cases:
  "d1_entry so qt r =
     (if 0 < d1_score qt r
      then [\<lparr>designation = Designation r, prix = Prix r, unite = Unite r,
             score = d1_score qt r, match_type = D1_label,
             matched_terms = so (get_flexible_matches qt (designation_tokens r)),
             num_matches = length (get_flexible_matches qt (designation_tokens r))\<rparr>]
      else [])"
  by (simp add: d1_entry_def Let_def d1_score_pos_iff)

lemma results_d1_designation:
  "map designation (results_d1 so qt df)
   = map Designation (filter (\<lambda>r. 0 < d1_score qt r) df)"
  by (induction df) (simp_all add: results_d1_def d1_entry_cases)

lemma results_d1_score:
  "map score (results_d1 so qt df)
   = map (d1_score qt) (filter (\<lambda>r. 0 < d1_score qt r) df)"
  by (induction df) (simp_all add: results_d1_def d1_entry_cases)

lemma results_d1_pos: "x \<in> set (results_d1 so qt df) \<Longrightarrow> 0 < score x"
proof -
  assume "x \<in> set (results_d1 so qt df)"
  then have "score x \<in> set (map score (results_d1 so qt df))" by simp
  then show ?thesis unfolding results_d1_score by auto
qed

lemma results_d1_label: "x \<in> set (results_d1 so qt df) \<Longrightarrow> match_type x = D1_label"
  by (auto simp: results_d1_def d1_entry_cases split: if_splits)

lemma results_d3_pos: "x \<in> set (results_d3 so syn df) \<Longrightarrow> 0 < score x"
  by (auto simp: results_d3_def d3_entry_def Let_def split: if_splits)

lemma results_d3_label: "x \<in> set (results_d3 so syn df) \<Longrightarrow> match_type x = D3_label"
  by (auto simp: results_d3_def d3_entry_def Let_def split: if_splits)

lemma results_d3_subseq:
  "subseq (map designation (results_d3 so syn df)) (map Designation df)"
  by (induction df) (auto simp: results_d3_def d3_entry_def Let_def)

lemma results_d1_subseq:
  "subseq (map designation (results_d1 so qt df)) (map Designation df)"
  unfolding results_d1_designation by (simp add: subseq_map)

lemma designation_promote_d2: "map designation (map promote_d2 rs) = map designation rs"
  by (induction rs) (simp_all add: promote_d2_def)

lemma results_d3_no_synonyms: "results_d3 so [] df = []"
  by (induction df) (simp_all add: results_d3_def d3_entry_def get_flexible_matches_def)

lemma py_slice_to_Nil: "py_slice_to n [] = []"
  by (simp add: py_slice_to_def)

lemma sort_by_score_Nil: "sort_by_score [] = []"
  by (simp add: sort_by_score_def)

lemma search_d3_by_candidates:
  "search_d3 e df query limit =
     py_slice_to limit (sort_by_score
       (results_d3 (order e)
          (filter (\<lambda>t. t \<notin> set (query_tokens e query))
             (py_set (expand_query (manager e) (order e) (corrected_query e query) 10)))
          df))"
  by (simp add: search_d3_def Let_def results_d3_no_synonyms py_slice_to_Nil
      sort_by_score_Nil)

lemma search_by_candidates:
  "search e df query limit = py_slice_to limit (sort_by_score (search_candidates e df query))"
proof (cases "query = [] \<or> length (py_strip query) < 2 \<or> query_tokens e query = []")
  case True
  then show ?thesis
    by (auto simp: search_def search_candidates_def Let_def py_slice_to_Nil sort_by_score_Nil)
next
  case False
  show ?thesis
  proof (cases "results_d1 (order e) (query_tokens e query) df = []")
    case True
    with False show ?thesis
      by (simp add: search_def search_candidates_def Let_def search_d3_by_candidates)
  next
    case d1: False
    with False show ?thesis
      by (simp add: search_def search_candidates_def Let_def)
  qed
qed

lemma search_candidates_pos:
  assumes "x \<in> set (search_candidates e df query)"
  shows "0 < score x"
proof -
  let ?qt = "query_tokens e query"
  let ?d1 = "results_d1 (order e) ?qt df"
  from assms consider
      (d3) syn where "x \<in> set (results_d3 (order e) syn df)"
    | (d2) y where "y \<in> set ?d1" "x = promote_d2 y"
    | (d1) "x \<in> set ?d1"
    by (auto simp: search_candidates_def Let_def split: if_splits)
  then show ?thesis
  proof cases
    case d3
    then show ?thesis by (rule results_d3_pos)
  next
    case d2
    then show ?thesis
      using results_d1_pos [of y "order e" "query_tokens e query" df]
      by (simp add: promote_d2_def)
  next
    case d1
    then show ?thesis by (rule results_d1_pos)
  qed
qed

lemma search_candidates_subseq:
  "subseq (map designation (search_candidates e df query)) (map Designation df)"
proof -
  have f: "subseq (map designation (filter P (results_d1 so qt df))) (map Designation df)"
    for P so qt
  proof -
    have "subseq (map designation (filter P (results_d1 so qt df)))
            (map designation (results_d1 so qt df))"
      by (rule subseq_map) simp
    then show ?thesis
      using results_d1_subseq [of so qt df] by (rule subseq_order.order_trans)
  qed
  have g: "subseq (map designation (map promote_d2 (filter P (results_d1 so qt df))))
             (map Designation df)" for P so qt
    unfolding designation_promote_d2 by (rule f)
  show ?thesis
    using g by (simp add: search_candidates_def Let_def results_d3_subseq results_d1_subseq
        del: map_map)
qed

subsection \<open>Evaluation of the examples\<close>

lemma labels_distinct: "D1_label \<noteq> D3_label" "D2_label \<noteq> D3_label"
  by (simp_all add: D1_label_def D2_label_def D3_label_def)

lemma example_order: "order example_engine = insertion_order"
  by (simp add: example_engine_def)

lemma tokens_semelle_beton:
  "query_tokens example_engine ''semelle beton'' = [''semelle'', ''beton'']"
  by code_simp

lemma tokens_semell_acier:
  "query_tokens example_engine ''semell acier'' = [''semelle'', ''acier'']"
  by code_simp

lemma tokens_ciment: "query_tokens example_engine ''ciment'' = [''ciment'']"
  by code_simp

lemma tokens_beton_semelle:
  "query_tokens example_engine ''beton semelle'' = [''beton'', ''semelle'']"
  by code_simp

lemma example_designation_tokens:
  "map designation_tokens example_catalog
   = [[''semelle'', ''beton'', ''arme''], [''semelle'', ''beton''], [''mortier'', ''pose'']]"
  by code_simp

lemma example_rows:
  "designation_tokens \<lparr>Designation = ''semelle beton arme'', Prix = ''100'', Unite = ''m3''\<rparr>
     = [''semelle'', ''beton'', ''arme'']"
  "designation_tokens \<lparr>Designation = ''semelle beton'', Prix = ''90'', Unite = ''m3''\<rparr>
     = [''semelle'', ''beton'']"
  "designation_tokens \<lparr>Designation = ''Mortier de pose'', Prix = ''9'', Unite = ''m3''\<rparr>
     = [''mortier'', ''pose'']"
  using example_designation_tokens by (simp_all add: example_catalog_def)

lemmas d1_eval = results_d1_def d1_entry_def d1_score_def get_flexible_matches_def
  example_catalog_def example_rows insertion_order_def Let_def

lemma d1_semelle_beton:
  "results_d1 insertion_order [''semelle'', ''beton''] example_catalog
   = [\<lparr>designation = ''semelle beton arme'', prix = ''100'', unite = ''m3'', score = 25,
        match_type = D1_label, matched_terms = [''semelle'', ''beton''], num_matches = 2\<rparr>,
      \<lparr>designation = ''semelle beton'', prix = ''90'', unite = ''m3'', score = 25,
        match_type = D1_label, matched_terms = [''semelle'', ''beton''], num_matches = 2\<rparr>]"
  by (simp add: d1_eval ex_disj_distrib)

lemma d1_semelle_acier:
  "results_d1 insertion_order [''semelle'', ''acier''] example_catalog
   = [\<lparr>designation = ''semelle beton arme'', prix = ''100'', unite = ''m3'', score = 15,
        match_type = D1_label, matched_terms = [''semelle''], num_matches = 1\<rparr>,
      \<lparr>designation = ''semelle beton'', prix = ''90'', unite = ''m3'', score = 15,
        match_type = D1_label, matched_terms = [''semelle''], num_matches = 1\<rparr>]"
  by (simp add: d1_eval ex_disj_distrib)

lemma d1_ciment: "results_d1 insertion_order [''ciment''] example_catalog = []"
  by (simp add: d1_eval ex_disj_distrib)

lemma d3_ciment:
  "map match_type (search_d3 example_engine example_catalog ''ciment'' 20)
   = [D3_label, D3_label, D3_label]"
  by code_simp

lemmas sort_eval = py_slice_to_def sort_by_score_def promote_d2_def

subsection \<open>C1\<close>

text \<open>
  C1. For a query that passes the two guards of \<open>search\<close> (at least two characters after
  stripping, at least one token): when the first tier \<open>d1\<close> is empty the answer is that of
  the synonym tier; when it is not, the synonym tier is not reached (no returned result
  carries its label), and the answer is the complete tier \<open>d2\<close> (the results of \<open>d1\<close> whose
  match count is the number of query tokens, each with 50 added to its score and the
  label of D2), sorted and cut at the limit, when the query has more than one token and
  \<open>d2\<close> is not empty, and \<open>d1\<close> sorted and cut otherwise.
\<close>

theorem search_tier_control_flow:
  fixes e :: engine and df :: "row list" and query :: string and limit :: int
  defines "qt \<equiv> query_tokens e query"
  defines "d1 \<equiv> results_d1 (order e) qt df"
  defines "d2 \<equiv> filter (\<lambda>r. num_matches r = length qt) d1"
  assumes guards: "query \<noteq> []" "\<not> length (py_strip query) < 2" "qt \<noteq> []"
  shows "(d1 = [] \<longrightarrow> search e df query limit = search_d3 e df query limit)
       \<and> (d1 \<noteq> [] \<and> 1 < length qt \<and> d2 \<noteq> [] \<longrightarrow>
            search e df query limit = py_slice_to limit (sort_by_score (map promote_d2 d2)))
       \<and> (d1 \<noteq> [] \<and> (length qt \<le> 1 \<or> d2 = []) \<longrightarrow>
            search e df query limit = py_slice_to limit (sort_by_score d1))
       \<and> (d1 \<noteq> [] \<longrightarrow> (\<forall>r \<in> set (search e df query limit). match_type r \<noteq> D3_label))
       \<and> (\<forall>r \<in> set (search_d3 e df query limit). match_type r = D3_label)
       \<and> map score (map promote_d2 d2) = map (\<lambda>r. score r + 50) d2
       \<and> (\<forall>r \<in> set (map promote_d2 d2). match_type r = D2_label)"
proof -
  have a: "d1 = [] \<longrightarrow> search e df query limit = search_d3 e df query limit"
    using guards by (simp add: search_def Let_def qt_def d1_def)
  have b: "d1 \<noteq> [] \<and> 1 < length qt \<and> d2 \<noteq> [] \<longrightarrow>
            search e df query limit = py_slice_to limit (sort_by_score (map promote_d2 d2))"
    using guards by (simp add: search_def Let_def qt_def d1_def d2_def)
  have c: "d1 \<noteq> [] \<and> (length qt \<le> 1 \<or> d2 = []) \<longrightarrow>
            search e df query limit = py_slice_to limit (sort_by_score d1)"
    using guards by (auto simp: search_def Let_def qt_def d1_def d2_def)
  have l1: "match_type r = D1_label" if "r \<in> set d1" for r
    using that unfolding d1_def by (rule results_d1_label)
  have l2: "match_type r = D2_label" if "r \<in> set (map promote_d2 d2)" for r
    using that by (auto simp: promote_d2_def)
  have d: "d1 \<noteq> [] \<longrightarrow> (\<forall>r \<in> set (search e df query limit). match_type r \<noteq> D3_label)"
  proof (intro impI ballI)
    fix r
    assume ne: "d1 \<noteq> []" and r: "r \<in> set (search e df query limit)"
    show "match_type r \<noteq> D3_label"
    proof (cases "1 < length qt \<and> d2 \<noteq> []")
      case True
      with ne b have "search e df query limit
          = py_slice_to limit (sort_by_score (map promote_d2 d2))" by simp
      with r set_py_slice_to have "r \<in> set (sort_by_score (map promote_d2 d2))" by fastforce
      then have "r \<in> set (map promote_d2 d2)" by (simp add: sort_by_score_def)
      then show ?thesis using l2 labels_distinct by simp
    next
      case False
      with ne c have "search e df query limit = py_slice_to limit (sort_by_score d1)"
        by auto
      with r set_py_slice_to have "r \<in> set (sort_by_score d1)" by fastforce
      then have "r \<in> set d1" by (simp add: sort_by_score_def)
      then show ?thesis using l1 labels_distinct by simp
    qed
  qed
  have e3: "\<forall>r \<in> set (search_d3 e df query limit). match_type r = D3_label"
  proof
    fix r
    assume "r \<in> set (search_d3 e df query limit)"
    then have "r \<in> set (sort_by_score (results_d3 (order e)
          (filter (\<lambda>t. t \<notin> set (query_tokens e query))
             (py_set (expand_query (manager e) (order e) (corrected_query e query) 10)))
          df))"
      unfolding search_d3_by_candidates using set_py_slice_to by fastforce
    then show "match_type r = D3_label"
      by (simp add: sort_by_score_def results_d3_label)
  qed
  have f: "map score (map promote_d2 d2) = map (\<lambda>r. score r + 50) d2"
    by (simp add: promote_d2_def)
  from a b c d e3 f l2 show ?thesis by blast
qed

theorem search_tier_control_flow_witness:
  "query_tokens example_engine ''semelle beton'' = [''semelle'', ''beton'']
   \<and> map score (search example_engine example_catalog ''semelle beton'' 20) = [75, 75]
   \<and> map match_type (search example_engine example_catalog ''semelle beton'' 20)
       = [D2_label, D2_label]
   \<and> query_tokens example_engine ''semell acier'' = [''semelle'', ''acier'']
   \<and> map score (search example_engine example_catalog ''semell acier'' 20) = [15, 15]
   \<and> map match_type (search example_engine example_catalog ''semell acier'' 20)
       = [D1_label, D1_label]
   \<and> results_d1 insertion_order [''ciment''] example_catalog = []
   \<and> search example_engine example_catalog ''ciment'' 20
       = search_d3 example_engine example_catalog ''ciment'' 20
   \<and> map match_type (search_d3 example_engine example_catalog ''ciment'' 20)
       = [D3_label, D3_label, D3_label]"
proof -
  let ?e = example_engine and ?df = example_catalog
  have g1: "''semelle beton'' \<noteq> []" "\<not> length (py_strip ''semelle beton'') < 2"
    by code_simp+
  have g2: "''semell acier'' \<noteq> []" "\<not> length (py_strip ''semell acier'') < 2"
    by code_simp+
  have g3: "''ciment'' \<noteq> []" "\<not> length (py_strip ''ciment'') < 2"
    by code_simp+
  have A: "search ?e ?df ''semelle beton'' 20
      = py_slice_to 20 (sort_by_score (map promote_d2
          (filter (\<lambda>r. num_matches r = 2)
             (results_d1 insertion_order [''semelle'', ''beton''] ?df))))"
    using search_tier_control_flow [where e = ?e and query = "''semelle beton''" and df = ?df
          and limit = 20] g1
    by (simp add: tokens_semelle_beton example_order numeral_2_eq_2 d1_semelle_beton)
  have B: "search ?e ?df ''semell acier'' 20
      = py_slice_to 20 (sort_by_score (results_d1 insertion_order [''semelle'', ''acier''] ?df))"
    using search_tier_control_flow [where e = ?e and query = "''semell acier''" and df = ?df
          and limit = 20] g2
    by (simp add: tokens_semell_acier example_order numeral_2_eq_2 d1_semelle_acier)
  have C: "search ?e ?df ''ciment'' 20 = search_d3 ?e ?df ''ciment'' 20"
    using search_tier_control_flow [where e = ?e and query = "''ciment''" and df = ?df
          and limit = 20] g3 d1_ciment
    by (simp add: tokens_ciment example_order)
  have va: "map score (search ?e ?df ''semelle beton'' 20) = [75, 75]"
    and la: "map match_type (search ?e ?df ''semelle beton'' 20) = [D2_label, D2_label]"
    unfolding A by (simp_all add: d1_semelle_beton sort_eval)
  have vb: "map score (search ?e ?df ''semell acier'' 20) = [15, 15]"
    and lb: "map match_type (search ?e ?df ''semell acier'' 20) = [D1_label, D1_label]"
    unfolding B by (simp_all add: d1_semelle_acier sort_eval)
  show ?thesis
    using C va la vb lb d3_ciment d1_ciment tokens_semelle_beton tokens_semell_acier by simp
qed

subsection \<open>C2\<close>

lemma norm_beton_semelle: "query_norm example_engine ''beton semelle'' = ''beton semelle''"
  by code_simp

lemma example_normalized_designations:
  "map (\<lambda>r. normalize_str (Designation r)) example_catalog
   = [''semelle beton arme'', ''semelle beton'', ''mortier de pose'']"
  by code_simp

lemma not_sublist_beton_semelle:
  "\<not> sublist ''beton semelle'' ''semelle beton arme''"
  "\<not> sublist ''beton semelle'' ''semelle beton''"
  "\<not> sublist ''beton semelle'' ''mortier de pose''"
  by code_simp+

text \<open>
  C2, as the code has it. In the first tier the score of a row is ten times the number of
  flexible matches between the query tokens and the tokens of the designation, plus five
  exactly when the two token sets have a token in common; the rows kept are those whose
  score is greater than 0, in the order of the catalogue, each with that score.
\<close>

theorem tier_d1_score_and_filter:
  "map score (results_d1 so qt df) = map (d1_score qt) (filter (\<lambda>r. 0 < d1_score qt r) df)
   \<and> map designation (results_d1 so qt df)
       = map Designation (filter (\<lambda>r. 0 < d1_score qt r) df)
   \<and> d1_score qt r
       = 10 * int (length (get_flexible_matches qt (designation_tokens r)))
         + (if set qt \<inter> set (designation_tokens r) \<noteq> {} then 5 else 0)
   \<and> (\<forall>x \<in> set (results_d1 so qt df). 0 < score x)"
proof -
  have "(\<exists>t \<in> set qt. t \<in> set (designation_tokens r))
        \<longleftrightarrow> set qt \<inter> set (designation_tokens r) \<noteq> {}"
    by auto
  then have "d1_score qt r
       = 10 * int (length (get_flexible_matches qt (designation_tokens r)))
         + (if set qt \<inter> set (designation_tokens r) \<noteq> {} then 5 else 0)"
    by (simp add: d1_score_def)
  then show ?thesis
    using results_d1_score results_d1_designation results_d1_pos by blast
qed

theorem tier_d1_score_and_filter_witness:
  "map (d1_score [''beton'', ''semelle'']) example_catalog = [25, 25, 0]
   \<and> map score (results_d1 insertion_order [''beton'', ''semelle''] example_catalog) = [25, 25]
   \<and> map designation (results_d1 insertion_order [''beton'', ''semelle''] example_catalog)
       = [''semelle beton arme'', ''semelle beton'']"
proof -
  have s: "map (d1_score [''beton'', ''semelle'']) example_catalog = [25, 25, 0]"
    by (simp add: d1_eval ex_disj_distrib)
  then have f: "filter (\<lambda>r. 0 < d1_score [''beton'', ''semelle''] r) example_catalog
      = take 2 example_catalog"
    by (simp add: example_catalog_def)
  show ?thesis
    using tier_d1_score_and_filter [of insertion_order "[''beton'', ''semelle'']"
        example_catalog] s
    unfolding f by (simp add: example_catalog_def)
qed

text \<open>
  As the specification states it, the property fails: for the query \<open>beton semelle\<close> the two rows with both words
  are kept with score 25 (two matches, and a common token), where the specification's rule gives
  20, the query not being a substring of either designation.
\<close>

theorem tier_d1_literal_bonus_counterexample:
  "map score (results_d1 (order example_engine)
       (query_tokens example_engine ''beton semelle'') example_catalog) = [25, 25]
   \<and> map (spec_d1_score (query_norm example_engine ''beton semelle'')
            (query_tokens example_engine ''beton semelle'')) example_catalog = [20, 20, 0]"
proof -
  have a: "map score (results_d1 insertion_order [''beton'', ''semelle''] example_catalog)
      = [25, 25]"
    by (simp add: d1_eval ex_disj_distrib)
  have b: "map (spec_d1_score ''beton semelle'' [''beton'', ''semelle'']) example_catalog
      = [20, 20, 0]"
    using example_normalized_designations not_sublist_beton_semelle
    by (simp add: spec_d1_score_def get_flexible_matches_def example_catalog_def
        example_rows)
  show ?thesis
    using a b by (simp add: tokens_beton_semelle norm_beton_semelle example_order)
qed

subsection \<open>C3\<close>

text \<open>
  C3, as the code has it. The flexible match of \<^verbatim>\<open>search_engine.py\<close>, which the synonym
  tier uses, matches two tokens exactly when one is a prefix of the other: a synonym token
  is among the matches if and only if some designation token starts with it or it starts
  with some designation token; a row enters the synonym tier if and only if it has such a
  pair.
\<close>

theorem flexible_match_is_prefix_match:
  "(s \<in> set (get_flexible_matches synonym_terms dts)
      \<longleftrightarrow> s \<in> set synonym_terms \<and> (\<exists>d \<in> set dts. prefix s d \<or> prefix d s))
   \<and> (d3_entry so synonym_terms r \<noteq> []
      \<longleftrightarrow> (\<exists>s \<in> set synonym_terms. \<exists>d \<in> set (designation_tokens r).
             prefix s d \<or> prefix d s))"
proof -
  have "d3_entry so synonym_terms r \<noteq> []
      \<longleftrightarrow> get_flexible_matches synonym_terms (designation_tokens r) \<noteq> []"
    by (simp add: d3_entry_def Let_def)
  also have "\<dots> \<longleftrightarrow> (\<exists>s. s \<in> set (get_flexible_matches synonym_terms (designation_tokens r)))"
    by (cases "get_flexible_matches synonym_terms (designation_tokens r)") auto
  also have "\<dots> \<longleftrightarrow> (\<exists>s \<in> set synonym_terms. \<exists>d \<in> set (designation_tokens r).
             prefix s d \<or> prefix d s)"
    by (auto simp: in_get_flexible_matches)
  finally show ?thesis by (simp add: in_get_flexible_matches)
qed

theorem flexible_match_is_prefix_match_witness:
  "''dalle'' \<in> set (get_flexible_matches [''dalle''] [''dalles'', ''beton''])
   \<and> ''dalles'' \<in> set (get_flexible_matches [''dalles''] [''dalle'', ''beton''])"
  using flexible_match_is_prefix_match [of "''dalle''" "[''dalle'']" "[''dalles'', ''beton'']"]
    flexible_match_is_prefix_match [of "''dalles''" "[''dalles'']" "[''dalle'', ''beton'']"]
  by simp

text \<open>
  As the specification states it, the property fails: \<open>dalle\<close> occurs in \<open>predalle\<close>, and is not a match for it.
\<close>

theorem flexible_match_substring_counterexample:
  "sublist ''dalle'' ''predalle''
   \<and> ''dalle'' \<notin> set (get_flexible_matches [''dalle''] [''predalle''])"
proof -
  have "sublist ''dalle'' ''predalle''" by code_simp
  moreover have "get_flexible_matches [''dalle''] [''predalle''] = []"
    by (simp add: get_flexible_matches_def)
  ultimately show ?thesis by simp
qed

subsection \<open>C4\<close>

text \<open>
  C4, as the code has it. Whatever tier answers, every returned result has a score
  greater than 0; the returned list is the candidates of that tier, which stand in the
  order of the scan of the catalogue, sorted by score with the highest first and equal
  scores left in their order, and then cut by \<^verbatim>\<open>[:limit]\<close>; so it is sorted by descending
  score, and when the limit is not negative its length is at most the limit.
\<close>

theorem search_result_invariants:
  "(\<forall>r \<in> set (search e df query limit). 0 < score r)
   \<and> (0 \<le> limit \<longrightarrow> int (length (search e df query limit)) \<le> limit)
   \<and> sorted_wrt (\<lambda>a b. score b \<le> score a) (search e df query limit)
   \<and> search e df query limit
       = py_slice_to limit (sort_by_score (search_candidates e df query))
   \<and> subseq (map designation (search_candidates e df query)) (map Designation df)
   \<and> (\<forall>k. filter (\<lambda>r. score r = k) (sort_by_score (search_candidates e df query))
            = filter (\<lambda>r. score r = k) (search_candidates e df query))"
proof -
  let ?c = "search_candidates e df query"
  have eq: "search e df query limit = py_slice_to limit (sort_by_score ?c)"
    by (rule search_by_candidates)
  have pos: "\<forall>r \<in> set (search e df query limit). 0 < score r"
  proof
    fix r
    assume "r \<in> set (search e df query limit)"
    then have "r \<in> set (sort_by_score ?c)"
      unfolding eq using set_py_slice_to by fastforce
    then have "r \<in> set ?c" by (simp add: sort_by_score_def)
    then show "0 < score r" by (rule search_candidates_pos)
  qed
  have len: "0 \<le> limit \<longrightarrow> int (length (search e df query limit)) \<le> limit"
    unfolding eq by (simp add: length_py_slice_to)
  have srt: "sorted_wrt (\<lambda>a b. score b \<le> score a) (search e df query limit)"
    unfolding eq by (rule sorted_wrt_py_slice_to) (rule sorted_sort_by_score)
  show ?thesis
    using pos len srt eq search_candidates_subseq sort_by_score_stable by blast
qed

theorem search_result_invariants_witness:
  "(0::int) \<le> 1
   \<and> map score (search example_engine example_catalog ''semell acier'' 1) = [15]
   \<and> int (length (search example_engine example_catalog ''semell acier'' 1)) \<le> 1"
proof -
  have "map score (search example_engine example_catalog ''semell acier'' 1) = [15]"
    by code_simp
  moreover have "int (length (search example_engine example_catalog ''semell acier'' 1)) \<le> 1"
    using search_result_invariants [of example_engine example_catalog "''semell acier''" 1,
        THEN conjunct2, THEN conjunct1]
    by simp
  ultimately show ?thesis by simp
qed

text \<open>
  As the specification states it, the property fails for a negative limit, which \<^verbatim>\<open>[:limit]\<close> reads from the end of
  the list: with limit \<open>-1\<close> and two matching rows, one result is returned.
\<close>

theorem search_negative_limit_counterexample:
  "map score (search example_engine example_catalog ''semell acier'' (- 1)) = [15]
   \<and> \<not> int (length (search example_engine example_catalog ''semell acier'' (- 1))) \<le> - 1"
proof -
  have "map score (search example_engine example_catalog ''semell acier'' (- 1)) = [15]"
    by code_simp
  then show ?thesis by (simp flip: length_map [of score])
qed

section \<open>The corrector: properties\<close>






section \<open>Synonym expansion: properties\<close>

lemma set_expanded_terms:
  "set (expanded_terms dm query)
   = set (expand_tokens query) \<union> (\<Union>t \<in> set (expand_tokens query). set (token_synonyms dm t))"
  by (auto simp: expanded_terms_def Let_def)

lemma set_token_synonyms:
  "map_of (reverse_index dm) token = Some main_terms \<Longrightarrow>
   set (token_synonyms dm token) = (\<Union>m \<in> set main_terms. set (dictionary_get dm m))"
  by (simp add: token_synonyms_def)

lemma token_synonyms_absent:
  "map_of (reverse_index dm) token = None \<Longrightarrow> token_synonyms dm token = []"
  by (simp add: token_synonyms_def)

lemma set_expand_query_subset:
  "set_order_ok so \<Longrightarrow> set (expand_query dm so query mx) \<subseteq> set (expanded_terms dm query)"
  unfolding expand_query_def using set_py_slice_to set_order_ok_set by fastforce

lemma set_expand_query_all:
  assumes "set_order_ok so" "int (length (expanded_terms dm query)) \<le> mx"
  shows "set (expand_query dm so query mx) = set (expanded_terms dm query)"
proof -
  have "int (length (so (expanded_terms dm query))) \<le> mx"
    using assms by (simp add: set_order_ok_length)
  then have "expand_query dm so query mx = so (expanded_terms dm query)"
    unfolding expand_query_def by (rule py_slice_to_all)
  then show ?thesis using assms(1) by (simp add: set_order_ok_set)
qed

lemma length_expand_query: "0 \<le> mx \<Longrightarrow> int (length (expand_query dm so query mx)) \<le> mx"
  unfolding expand_query_def by (rule length_py_slice_to)

lemma expanded_beton_ciment:
  "expanded_terms (load_dictionary beton_dictionary) ''ciment'' = [''beton'', ''ciment'', ''mortier'']"
  by code_simp

text \<open>
  C6, as the code has it. When the collected terms number at most \<^verbatim>\<open>max_expansions\<close> (10 for
  every caller), the result of \<open>expand\<close> holds, for every query token that the reverse index
  knows, every synonym listed under every canonical term the token maps to, and it holds
  the query tokens; with more terms, only \<^verbatim>\<open>max_expansions\<close> of them are returned. With the
  dictionary that lists \<open>beton\<close>, \<open>ciment\<close> and \<open>mortier\<close> under \<open>beton\<close>, expanding \<open>ciment\<close>
  gives a set that holds \<open>mortier\<close>, whatever the iteration order of sets.
\<close>

theorem expand_query_fan_out:
  assumes "set_order_ok so"
  shows "(int (length (expanded_terms dm query)) \<le> max_expansions \<longrightarrow>
           (\<forall>token \<in> set (expand_tokens query). \<forall>main_terms.
              map_of (reverse_index dm) token = Some main_terms \<longrightarrow>
              (\<forall>m \<in> set main_terms.
                 set (dictionary_get dm m) \<subseteq> set (expand_query dm so query max_expansions)))
           \<and> set (expand_tokens query) \<subseteq> set (expand_query dm so query max_expansions))
       \<and> (0 \<le> max_expansions \<longrightarrow>
            int (length (expand_query dm so query max_expansions)) \<le> max_expansions)
       \<and> ''mortier'' \<in> set (expand_query (load_dictionary beton_dictionary) so ''ciment'' 10)"
proof -
  have a: "set (dictionary_get dm m) \<subseteq> set (expand_query dm so query max_expansions)"
    if fits: "int (length (expanded_terms dm query)) \<le> max_expansions"
      and t: "token \<in> set (expand_tokens query)"
      and ms: "map_of (reverse_index dm) token = Some main_terms"
      and m: "m \<in> set main_terms" for token main_terms m
  proof -
    have "set (dictionary_get dm m) \<subseteq> set (token_synonyms dm token)"
      using ms m by (auto simp: set_token_synonyms)
    also have "\<dots> \<subseteq> set (expanded_terms dm query)"
      using t by (auto simp: set_expanded_terms)
    finally show ?thesis using set_expand_query_all [OF assms fits] by simp
  qed
  have b: "set (expand_tokens query) \<subseteq> set (expand_query dm so query max_expansions)"
    if fits: "int (length (expanded_terms dm query)) \<le> max_expansions"
    using set_expand_query_all [OF assms fits] by (auto simp: set_expanded_terms)
  have c: "''mortier'' \<in> set (expand_query (load_dictionary beton_dictionary) so ''ciment'' 10)"
  proof -
    have "int (length (expanded_terms (load_dictionary beton_dictionary) ''ciment'')) \<le> 10"
      by (simp add: expanded_beton_ciment)
    from set_expand_query_all [OF assms this] show ?thesis
      by (simp add: expanded_beton_ciment)
  qed
  from a b c length_expand_query show ?thesis by blast
qed

theorem expand_query_fan_out_witness:
  "set_order_ok insertion_order
   \<and> int (length (expanded_terms (load_dictionary beton_dictionary) ''ciment'')) \<le> 10
   \<and> ''ciment'' \<in> set (expand_tokens ''ciment'')
   \<and> map_of (reverse_index (load_dictionary beton_dictionary)) ''ciment'' = Some [''beton'']
   \<and> dictionary_get (load_dictionary beton_dictionary) ''beton''
       = [''beton'', ''ciment'', ''mortier'']
   \<and> {''beton'', ''ciment'', ''mortier''}
       \<subseteq> set (expand_query (load_dictionary beton_dictionary) insertion_order ''ciment'' 10)"
proof -
  let ?dm = "load_dictionary beton_dictionary"
  have fits: "int (length (expanded_terms ?dm ''ciment'')) \<le> 10"
    by (simp add: expanded_beton_ciment)
  have t: "''ciment'' \<in> set (expand_tokens ''ciment'')" by code_simp
  have ri: "map_of (reverse_index ?dm) ''ciment'' = Some [''beton'']" by code_simp
  have dg: "dictionary_get ?dm ''beton'' = [''beton'', ''ciment'', ''mortier'']" by code_simp
  have "set (dictionary_get ?dm ''beton'')
      \<subseteq> set (expand_query ?dm insertion_order ''ciment'' 10)"
    using expand_query_fan_out [OF insertion_order_ok, of ?dm "''ciment''" 10] fits t ri
    by simp
  with fits t ri dg insertion_order_ok show ?thesis by simp
qed

lemma peinture_synonyms:
  "distinct (dictionary_get (load_dictionary peinture_dictionary) ''peinture'')
   \<and> length (dictionary_get (load_dictionary peinture_dictionary) ''peinture'') = 11"
  by code_simp

lemma expand_query_drops_a_synonym:
  "\<not> set (dictionary_get (load_dictionary peinture_dictionary) ''peinture'')
     \<subseteq> set (expand_query (load_dictionary peinture_dictionary) so ''peinture'' 10)"
proof
  let ?syn = "dictionary_get (load_dictionary peinture_dictionary) ''peinture''"
  let ?res = "expand_query (load_dictionary peinture_dictionary) so ''peinture'' 10"
  assume "set ?syn \<subseteq> set ?res"
  then have "card (set ?syn) \<le> card (set ?res)" by (intro card_mono) simp_all
  moreover have "card (set ?syn) = 11"
    using peinture_synonyms by (simp add: distinct_card)
  moreover have "card (set ?res) \<le> length ?res" by (rule card_length)
  moreover have "int (length ?res) \<le> 10" by (intro length_expand_query) simp
  ultimately show False by simp
qed

text \<open>
  As the specification states it, the property fails when more than ten terms are collected: the entry for paint
  of the default dictionary lists eleven synonyms, and expanding \<open>peinture\<close> returns ten of
  them. In the order of insertion the last one, \<open>Faume\<close>, is the one left out; by the lemma
  above one is left out in every order.
\<close>

theorem expand_query_truncation_counterexample:
  "''peinture'' \<in> set (expand_tokens ''peinture'')
   \<and> map_of (reverse_index (load_dictionary peinture_dictionary)) ''peinture''
       = Some [''peinture'']
   \<and> ''Faume'' \<in> set (dictionary_get (load_dictionary peinture_dictionary) ''peinture'')
   \<and> ''Faume'' \<notin> set (expand_query (load_dictionary peinture_dictionary) insertion_order
                        ''peinture'' 10)"
  by code_simp

subsection \<open>The reverse index holds normalized keys\<close>

lemma foldl_invariant:
  assumes "I a" and "\<And>b x. I b \<Longrightarrow> x \<in> set xs \<Longrightarrow> I (f b x)"
  shows "I (foldl f a xs)"
  using assms by (induction xs arbitrary: a) auto

lemma index_all_empty: "index_all P []"
  by (simp add: index_all_def)

lemma index_all_add:
  assumes "index_all P idx" "P key term"
  shows "index_all P (index_add idx key term)"
proof (cases "map_of idx key")
  case None
  with assms show ?thesis
    by (auto simp: index_all_def index_add_def update_conv' split: if_splits)
next
  case (Some terms)
  with assms show ?thesis
    by (auto simp: index_all_def index_add_def update_conv' split: if_splits)
qed

lemma index_all_entry:
  assumes "index_all P idx" "\<And>synonym. synonym \<in> set (snd entry) \<Longrightarrow>
      P (normalize_str synonym) (normalize_str (fst entry))"
  shows "index_all P (index_entry idx entry)"
  unfolding index_entry_def Let_def
  using assms by (intro foldl_invariant [where I = "index_all P"] index_all_add) auto

lemma index_all_build:
  "index_all (\<lambda>key term. \<exists>(K, synonyms) \<in> set d.
       term = normalize_str K \<and> key \<in> normalize_str ` set synonyms)
     (build_reverse_index d)"
  unfolding build_reverse_index_def
proof (rule foldl_invariant [where I = "index_all _"])
  show "index_all (\<lambda>key term. \<exists>(K, synonyms) \<in> set d.
       term = normalize_str K \<and> key \<in> normalize_str ` set synonyms) []"
    by (rule index_all_empty)
next
  fix b x
  assume "index_all (\<lambda>key term. \<exists>(K, synonyms) \<in> set d.
       term = normalize_str K \<and> key \<in> normalize_str ` set synonyms) b"
    and "x \<in> set d"
  then show "index_all (\<lambda>key term. \<exists>(K, synonyms) \<in> set d.
       term = normalize_str K \<and> key \<in> normalize_str ` set synonyms) (index_entry b x)"
    by (intro index_all_entry) (auto intro!: bexI [of _ x] simp: case_prod_beta)
qed

lemma reverse_index_terms:
  assumes "map_of (build_reverse_index d) token = Some main_terms" "m \<in> set main_terms"
  shows "\<exists>(K, synonyms) \<in> set d. m = normalize_str K \<and> token \<in> normalize_str ` set synonyms"
  using index_all_build [of d] assms unfolding index_all_def by blast

lemma dictionary_get_absent:
  "m \<notin> fst ` set (dictionary dm) \<Longrightarrow> dictionary_get dm m = []"
proof -
  assume "m \<notin> fst ` set (dictionary dm)"
  then have "map_of (dictionary dm) m = None" by (simp add: map_of_eq_None_iff)
  then show ?thesis by (simp add: dictionary_get_def)
qed

text \<open>
  C10, as the code has it. Expansion looks a canonical term up under its normalized form:
  every term that the reverse index gives for a token is the normalization of a key whose
  synonyms hold the token (normalized). So, when for every key that lists a query token
  the normalized form of the key is not itself a key of the dictionary, the lookups find
  nothing and \<open>expand\<close> yields query tokens only.
\<close>

theorem expand_query_unnormalized_key:
  assumes "set_order_ok so"
    and "dm = \<lparr>dictionary = d, reverse_index = build_reverse_index d\<rparr>"
  shows "(\<forall>token main_terms m.
            map_of (reverse_index dm) token = Some main_terms \<and> m \<in> set main_terms \<longrightarrow>
            (\<exists>(K, synonyms) \<in> set d.
               m = normalize_str K \<and> token \<in> normalize_str ` set synonyms))
       \<and> ((\<forall>token \<in> set (expand_tokens query). \<forall>(K, synonyms) \<in> set d.
              token \<in> normalize_str ` set synonyms \<longrightarrow> normalize_str K \<notin> fst ` set d)
            \<longrightarrow> set (expand_query dm so query max_expansions) \<subseteq> set (expand_tokens query))"
proof -
  have ri: "reverse_index dm = build_reverse_index d" and di: "dictionary dm = d"
    using assms(2) by simp_all
  have a: "\<exists>(K, synonyms) \<in> set d. m = normalize_str K \<and> token \<in> normalize_str ` set synonyms"
    if "map_of (reverse_index dm) token = Some main_terms" "m \<in> set main_terms"
    for token main_terms m
    using that unfolding ri by (rule reverse_index_terms)
  have b: "set (expand_query dm so query max_expansions) \<subseteq> set (expand_tokens query)"
    if h: "\<forall>token \<in> set (expand_tokens query). \<forall>(K, synonyms) \<in> set d.
              token \<in> normalize_str ` set synonyms \<longrightarrow> normalize_str K \<notin> fst ` set d"
  proof -
    have none: "token_synonyms dm token = []" if t: "token \<in> set (expand_tokens query)"
      for token
    proof (cases "map_of (reverse_index dm) token")
      case None
      then show ?thesis by (rule token_synonyms_absent)
    next
      case (Some main_terms)
      have "dictionary_get dm m = []" if m: "m \<in> set main_terms" for m
      proof -
        from a [OF Some m] obtain K synonyms where
          "(K, synonyms) \<in> set d" "m = normalize_str K"
          "token \<in> normalize_str ` set synonyms"
          by blast
        moreover from h t have "\<forall>(K, synonyms) \<in> set d.
              token \<in> normalize_str ` set synonyms \<longrightarrow> normalize_str K \<notin> fst ` set d"
          by (rule bspec)
        ultimately have "m \<notin> fst ` set d" by fast
        then show ?thesis using di by (simp add: dictionary_get_absent)
      qed
      then have "set (token_synonyms dm token) = {}"
        using Some by (simp add: set_token_synonyms)
      then show ?thesis by simp
    qed
    have "set (expanded_terms dm query) = set (expand_tokens query)"
      using none by (auto simp: set_expanded_terms)
    with set_expand_query_subset [OF assms(1)] show ?thesis by blast
  qed
  show ?thesis
  proof (intro conjI allI impI)
    fix token main_terms m
    assume "map_of (reverse_index dm) token = Some main_terms \<and> m \<in> set main_terms"
    then show "\<exists>(K, synonyms) \<in> set d.
        m = normalize_str K \<and> token \<in> normalize_str ` set synonyms"
      using a by simp
  next
    assume "\<forall>token \<in> set (expand_tokens query). \<forall>(K, synonyms) \<in> set d.
              token \<in> normalize_str ` set synonyms \<longrightarrow> normalize_str K \<notin> fst ` set d"
    then show "set (expand_query dm so query max_expansions) \<subseteq> set (expand_tokens query)"
      by (rule b)
  qed
qed

theorem expand_query_unnormalized_key_witness:
  "set_order_ok insertion_order
   \<and> load_dictionary capital_only_dictionary
       = \<lparr>dictionary = [(''Beton'', [''ciment'', ''mortier''])],
          reverse_index = build_reverse_index [(''Beton'', [''ciment'', ''mortier''])]\<rparr>
   \<and> expand_tokens ''ciment'' = [''ciment'']
   \<and> map_of (reverse_index (load_dictionary capital_only_dictionary)) ''ciment''
       = Some [''beton'']
   \<and> normalize_str ''Beton'' = ''beton''
   \<and> set (expand_query (load_dictionary capital_only_dictionary) insertion_order ''ciment'' 10)
       \<subseteq> {''ciment''}"
proof -
  let ?d = "[(''Beton'', [''ciment'', ''mortier''])]"
  let ?dm = "load_dictionary capital_only_dictionary"
  have dm: "?dm = \<lparr>dictionary = ?d, reverse_index = build_reverse_index ?d\<rparr>"
    by (simp add: load_dictionary_def capital_only_dictionary_def json_object_def Let_def)
  have t: "expand_tokens ''ciment'' = [''ciment'']" by code_simp
  have ri: "map_of (reverse_index ?dm) ''ciment'' = Some [''beton'']" by code_simp
  have n: "normalize_str ''Beton'' = ''beton''" by code_simp
  have "set (expand_query ?dm insertion_order ''ciment'' 10) \<subseteq> set (expand_tokens ''ciment'')"
    using expand_query_unnormalized_key [OF insertion_order_ok dm, of "''ciment''" 10,
        THEN conjunct2]
    by (simp add: t n)
  with insertion_order_ok dm t ri n show ?thesis by simp
qed

text \<open>
  As the specification states it, the property fails when the normalized form of such a key is itself a key: the
  token \<open>ciment\<close> maps to the term \<open>beton\<close> through the key \<open>Beton\<close>, which is not equal to
  its normalization, and the expansion holds \<open>mortier\<close>, a synonym of \<open>Beton\<close> that the
  query does not hold.
\<close>

theorem expand_query_key_collision_counterexample:
  "dictionary (load_dictionary capital_dictionary)
     = [(''Beton'', [''ciment'', ''mortier'']), (''beton'', [''mortier''])]
   \<and> normalize_str ''Beton'' \<noteq> ''Beton''
   \<and> map_of (reverse_index (load_dictionary capital_dictionary)) ''ciment'' = Some [''beton'']
   \<and> expand_tokens ''ciment'' = [''ciment'']
   \<and> expand_query (load_dictionary capital_dictionary) insertion_order ''ciment'' 10
       = [''mortier'', ''ciment'']"
  by code_simp

section \<open>The catalogue tree: properties\<close>

lemma title_node_at_update: "title_node_at (AList.update k node s) k = node"
  by (simp add: title_node_at_def update_conv')

lemma title_node_at_update_other:
  "k' \<noteq> k \<Longrightarrow> title_node_at (AList.update k node s) k' = title_node_at s k'"
  by (simp add: title_node_at_def update_conv')

lemma parse_None_iff:
  "parse_code_hierarchy code = None \<longleftrightarrow> length (py_split_on CHR ''.'' code) < 3"
  by (simp add: parse_code_hierarchy_def Let_def)

lemma process_row_unparsed: "\<not> parses ir \<Longrightarrow> process_row s ir = s"
proof -
  assume "\<not> parses ir"
  then have "parse_code_hierarchy (r_Code (snd ir)) = None"
    by (simp add: parses_def parse_None_iff)
  then show ?thesis by (simp add: process_row_def Let_def)
qed

lemma foldl_process_row_filter:
  "foldl process_row s df = foldl process_row s (filter parses df)"
  by (induction df arbitrary: s) (simp_all add: process_row_unparsed)

lemma process_row_content:
  assumes "parse_code_hierarchy (r_Code r) = Some h"
    and "identify_entry_type (r_Code r) = Content"
  shows "process_row s (idx, r)
         = AList.update (title_key_of h)
             (add_content (title_node_at s (title_key_of h)) h (make_content_item idx r h)) s"
  using assms by (simp add: process_row_def Let_def)

lemma add_content_subtitle:
  assumes "h_subsubtitle h \<noteq> []" "subtitle_key_of h \<in> fst ` set (t_subtitles node)"
  shows "\<exists>sub. map_of (t_subtitles node) (subtitle_key_of h) = Some sub
           \<and> add_content node h item
             = node\<lparr>t_subtitles := AList.update (subtitle_key_of h)
                        (sub\<lparr>s_content := s_content sub @ [item]\<rparr>) (t_subtitles node)\<rparr>"
proof -
  from assms(2) obtain sub where "map_of (t_subtitles node) (subtitle_key_of h) = Some sub"
    by (cases "map_of (t_subtitles node) (subtitle_key_of h)")
       (auto simp: map_of_eq_None_iff)
  then show ?thesis using assms by (simp add: add_content_def)
qed

lemma add_content_title:
  assumes "\<not> (h_subsubtitle h \<noteq> [] \<and> subtitle_key_of h \<in> fst ` set (t_subtitles node))"
  shows "add_content node h item = node\<lparr>t_content := t_content node @ [item]\<rparr>"
  using assms by (auto simp: add_content_def)

text \<open>
  C5. In the single pass over the rows, a content row whose code parses is attached as
  follows. If its fourth segment is not empty and the title node already holds a subtitle
  under the key made of the title key and that segment, the item is appended to the
  content of that subtitle, and the content of the title, the keys of its subtitles and
  the content of its other subtitles stay as they are. Otherwise the item is appended to
  the content of the title node, and the subtitles stay as they are. A row whose code has
  fewer than three segments leaves the tree as it is: the tree of a table is the tree of
  its rows with at least three segments.
\<close>

theorem content_row_attachment:
  fixes s :: hierarchical_data and r :: csv_row and idx :: int and h :: hierarchy
    and df :: "(int \<times> csv_row) list"
  defines "tk \<equiv> title_key_of h"
  defines "sk \<equiv> subtitle_key_of h"
  defines "item \<equiv> make_content_item idx r h"
  defines "s' \<equiv> process_row s (idx, r)"
  shows "(parse_code_hierarchy (r_Code r) = Some h \<and> identify_entry_type (r_Code r) = Content
          \<longrightarrow>
          (h_subsubtitle h \<noteq> [] \<and> sk \<in> set (subtitle_keys s tk) \<longrightarrow>
             subtitle_content s' tk sk = subtitle_content s tk sk @ [item]
             \<and> title_content s' tk = title_content s tk
             \<and> subtitle_keys s' tk = subtitle_keys s tk
             \<and> (\<forall>k. k \<noteq> sk \<longrightarrow> subtitle_content s' tk k = subtitle_content s tk k))
          \<and> (\<not> (h_subsubtitle h \<noteq> [] \<and> sk \<in> set (subtitle_keys s tk)) \<longrightarrow>
             title_content s' tk = title_content s tk @ [item]
             \<and> t_subtitles (title_node_at s' tk) = t_subtitles (title_node_at s tk)))
       \<and> (length (py_split_on CHR ''.'' (r_Code r)) < 3 \<longrightarrow> s' = s)
       \<and> build_hierarchical_structure df = build_hierarchical_structure (filter parses df)"
proof -
  let ?node = "title_node_at s tk"
  have keys: "set (subtitle_keys s tk) = fst ` set (t_subtitles ?node)"
    by (simp add: subtitle_keys_def)
  have a: "subtitle_content s' tk sk = subtitle_content s tk sk @ [item]
             \<and> title_content s' tk = title_content s tk
             \<and> subtitle_keys s' tk = subtitle_keys s tk
             \<and> (\<forall>k. k \<noteq> sk \<longrightarrow> subtitle_content s' tk k = subtitle_content s tk k)"
    if p: "parse_code_hierarchy (r_Code r) = Some h" "identify_entry_type (r_Code r) = Content"
      and c: "h_subsubtitle h \<noteq> []" "sk \<in> set (subtitle_keys s tk)"
  proof -
    from add_content_subtitle [of h ?node item] c keys obtain sub where
      sub: "map_of (t_subtitles ?node) sk = Some sub"
      and ac: "add_content ?node h item
             = ?node\<lparr>t_subtitles := AList.update sk
                        (sub\<lparr>s_content := s_content sub @ [item]\<rparr>) (t_subtitles ?node)\<rparr>"
      unfolding sk_def by blast
    have n': "title_node_at s' tk
        = ?node\<lparr>t_subtitles := AList.update sk
                    (sub\<lparr>s_content := s_content sub @ [item]\<rparr>) (t_subtitles ?node)\<rparr>"
      unfolding s'_def process_row_content [OF p] tk_def [symmetric] item_def [symmetric]
      by (simp add: title_node_at_update ac)
    have "sk \<in> set (map fst (t_subtitles ?node))" using c keys by simp
    then have k: "map fst (AList.update sk (sub\<lparr>s_content := s_content sub @ [item]\<rparr>)
                    (t_subtitles ?node)) = map fst (t_subtitles ?node)"
      by (simp add: update_keys)
    show ?thesis
      using sub k by (simp add: subtitle_content_def title_content_def subtitle_keys_def n'
          update_conv')
  qed
  have b: "title_content s' tk = title_content s tk @ [item]
             \<and> t_subtitles (title_node_at s' tk) = t_subtitles (title_node_at s tk)"
    if p: "parse_code_hierarchy (r_Code r) = Some h" "identify_entry_type (r_Code r) = Content"
      and c: "\<not> (h_subsubtitle h \<noteq> [] \<and> sk \<in> set (subtitle_keys s tk))"
  proof -
    have "add_content ?node h item = ?node\<lparr>t_content := t_content ?node @ [item]\<rparr>"
      using c keys unfolding sk_def by (intro add_content_title) simp
    then have "title_node_at s' tk = ?node\<lparr>t_content := t_content ?node @ [item]\<rparr>"
      unfolding s'_def process_row_content [OF p] tk_def [symmetric] item_def [symmetric]
      by (simp add: title_node_at_update)
    then show ?thesis by (simp add: title_content_def)
  qed
  have c: "s' = s" if "length (py_split_on CHR ''.'' (r_Code r)) < 3"
    unfolding s'_def using that by (intro process_row_unparsed) (simp add: parses_def)
  have d: "build_hierarchical_structure df = build_hierarchical_structure (filter parses df)"
    unfolding build_hierarchical_structure_def by (rule foldl_process_row_filter)
  show ?thesis
  proof (intro conjI impI)
    assume p: "parse_code_hierarchy (r_Code r) = Some h \<and> identify_entry_type (r_Code r) = Content"
    {
      assume "h_subsubtitle h \<noteq> [] \<and> sk \<in> set (subtitle_keys s tk)"
      with a p show "subtitle_content s' tk sk = subtitle_content s tk sk @ [item]"
        and "title_content s' tk = title_content s tk"
        and "subtitle_keys s' tk = subtitle_keys s tk"
        and "\<forall>k. k \<noteq> sk \<longrightarrow> subtitle_content s' tk k = subtitle_content s tk k"
        by blast+
    }
    {
      assume "\<not> (h_subsubtitle h \<noteq> [] \<and> sk \<in> set (subtitle_keys s tk))"
      with b p show "title_content s' tk = title_content s tk @ [item]"
        and "t_subtitles (title_node_at s' tk) = t_subtitles (title_node_at s tk)"
        by blast+
    }
  next
    assume "length (py_split_on CHR ''.'' (r_Code r)) < 3"
    then show "s' = s" by (rule c)
  next
    show "build_hierarchical_structure df = build_hierarchical_structure (filter parses df)"
      by (rule d)
  qed
qed

theorem content_row_attachment_witness:
  "parse_code_hierarchy ''03.1.0.0.001'' = Some (example_hierarchy ''0'' ''001'')
   \<and> identify_entry_type ''03.1.0.0.001'' = Content
   \<and> subtitle_keys (build_hierarchical_structure (take 2 example_table)) ''03.1.0''
       = [''03.1.0.0'']
   \<and> subtitle_content
         (process_row (build_hierarchical_structure (take 2 example_table))
            (2, example_row ''03.1.0.0.001'' ''semelle beton arme''))
         ''03.1.0'' ''03.1.0.0''
       = [make_content_item 2 (example_row ''03.1.0.0.001'' ''semelle beton arme'')
            (example_hierarchy ''0'' ''001'')]
   \<and> subtitle_keys (build_hierarchical_structure (take 1 example_table_reordered)) ''03.1.0''
       = []
   \<and> title_content
         (process_row (build_hierarchical_structure (take 1 example_table_reordered))
            (2, example_row ''03.1.0.0.001'' ''semelle beton arme''))
         ''03.1.0''
       = [make_content_item 2 (example_row ''03.1.0.0.001'' ''semelle beton arme'')
            (example_hierarchy ''0'' ''001'')]
   \<and> length (py_split_on CHR ''.'' ''03.1'') = 2
   \<and> process_row (build_hierarchical_structure (take 4 example_table))
         (4, example_row ''03.1'' ''ligne sans code complet'')
       = build_hierarchical_structure (take 4 example_table)
   \<and> build_hierarchical_structure example_table
       = build_hierarchical_structure (take 4 example_table)"
proof -
  let ?r = "example_row ''03.1.0.0.001'' ''semelle beton arme''"
  let ?h = "example_hierarchy ''0'' ''001''"
  let ?s1 = "build_hierarchical_structure (take 2 example_table)"
  let ?s0 = "build_hierarchical_structure (take 1 example_table_reordered)"
  let ?s4 = "build_hierarchical_structure (take 4 example_table)"
  have code: "r_Code ?r = ''03.1.0.0.001''"
    "r_Code (example_row ''03.1'' ''ligne sans code complet'') = ''03.1''"
    by (simp_all add: example_row_def)
  have p: "parse_code_hierarchy ''03.1.0.0.001'' = Some ?h"
    "identify_entry_type ''03.1.0.0.001'' = Content"
    by code_simp+
  have hk: "title_key_of ?h = ''03.1.0''" "subtitle_key_of ?h = ''03.1.0.0''"
    "h_subsubtitle ?h \<noteq> []"
    by code_simp+
  have k1: "subtitle_keys ?s1 ''03.1.0'' = [''03.1.0.0'']"
    and c1: "subtitle_content ?s1 ''03.1.0'' ''03.1.0.0'' = []"
    by code_simp+
  have k0: "subtitle_keys ?s0 ''03.1.0'' = []"
    and c0: "title_content ?s0 ''03.1.0'' = []"
    by code_simp+
  have l: "length (py_split_on CHR ''.'' ''03.1'') = 2" by code_simp
  have f: "filter parses example_table = take 4 example_table" by code_simp
  note thm1 = content_row_attachment [where s = ?s1 and r = ?r and idx = 2 and h = ?h
      and df = example_table]
  note thm0 = content_row_attachment [where s = ?s0 and r = ?r and idx = 2 and h = ?h
      and df = example_table]
  note thm4 = content_row_attachment [where s = ?s4 and idx = 4 and h = ?h
      and r = "example_row ''03.1'' ''ligne sans code complet''" and df = example_table]
  have a: "subtitle_content (process_row ?s1 (2, ?r)) ''03.1.0'' ''03.1.0.0''
      = [make_content_item 2 ?r ?h]"
    using thm1 [THEN conjunct1] p k1 c1 by (simp add: code hk)
  have b: "title_content (process_row ?s0 (2, ?r)) ''03.1.0'' = [make_content_item 2 ?r ?h]"
    using thm0 [THEN conjunct1] p k0 c0 by (simp add: code hk)
  have c: "process_row ?s4 (4, example_row ''03.1'' ''ligne sans code complet'') = ?s4"
    using thm4 [THEN conjunct2, THEN conjunct1] l by (simp add: code)
  have d: "build_hierarchical_structure example_table = ?s4"
    using thm1 [THEN conjunct2, THEN conjunct2] by (simp add: f)
  from p k1 a k0 b l c d show ?thesis by simp
qed

section \<open>The search route: properties\<close>













end
